theory Spec2Isabelle
  imports Complex_Main
begin

text \<open>
  A model of the DAB bridge for Android devices (\<open>dab-adb-bridge\<close>): the status
  envelope builder and the telemetry session manager of \<open>DabDeviceBase\<close>
  (\<open>dab_device_base.ts\<close>), \<open>handleMessage\<close> and \<open>request\<close> of the MQTT client
  (\<open>mqtt_client/client.ts\<close>), and the application handlers of \<open>DabDevice\<close>
  (\<open>dab_adb_bridge.ts\<close>). The definitions come first, in the order of these files; the
  properties follow.

  The code is asynchronous on one thread. A function that awaits is modelled by one
  function per stretch between two suspension points, so that what other tasks do while it
  waits can be placed between them; a function that does not await is one function.
  Mutable objects are state passed in and out, exceptions and rejections are the left
  summand of a result, and calls on the transport, the timers and the telemetry callback
  are recorded as lists of actions.
\<close>

section \<open>JavaScript values\<close>

text \<open>
  Payloads on the bus are JSON documents; handlers read their fields dynamically.
  A number is an exact rational here (no property below depends on rounding); an object is
  the association list of its own properties, read with \<open>map_of\<close>.
  \<open>JPacket\<close> is the publish packet that \<open>handleMessage\<close> stores in its
  parse-failure payload.
\<close>

record publish_packet =
  pkt_topic :: string
  pkt_payload :: string
  pkt_qos :: nat
  pkt_retain :: bool

datatype jsval =
    JUndefined
  | JNull
  | JBool bool
  | JNum rat
  | JStr string
  | JArr "jsval list"
  | JObj "(string \<times> jsval) list"
  | JPacket publish_packet

text \<open>
  What a handler can throw or reject with. \<open>TimeoutError topic ms\<close> is the
  \<open>TimeoutError\<close> of \<open>error.ts\<close> with the message
  \<open>Failed to receive response from ${topic} within ${ms}ms\<close>; \<open>Thrown v\<close> is a
  rejection with a value that is no error object.
\<close>

datatype js_error =
    Error string
  | TypeError string
  | TimeoutError string rat
  | Thrown jsval

text \<open>
  \<open>typeof v === "number"\<close>. (\<open>typeof v === "string"\<close> and \<open>Array.isArray(v)\<close>
  are matches on \<open>JStr\<close> and \<open>JArr\<close>.)
\<close>

fun is_number :: "jsval \<Rightarrow> bool" where
  "is_number (JNum r) = True"
| "is_number v = False"

text \<open>\<open>Number.isInteger(v)\<close>: a number with no fractional part; false for every other type.\<close>

fun isInteger :: "jsval \<Rightarrow> bool" where
  "isInteger (JNum r) = (of_int \<lfloor>r\<rfloor> = r)"
| "isInteger v = False"

text \<open>
  Truthiness, as \<open>if (v)\<close> and \<open>!v\<close> read it: \<open>undefined\<close>, \<open>null\<close>,
  \<open>false\<close>, \<open>0\<close> and the empty string are falsy.
\<close>

fun truthy :: "jsval \<Rightarrow> bool" where
  "truthy JUndefined = False"
| "truthy JNull = False"
| "truthy (JBool b) = b"
| "truthy (JNum r) = (r \<noteq> 0)"
| "truthy (JStr s) = (s \<noteq> [])"
| "truthy v = True"

text \<open>
  Property read \<open>v.k\<close>: a \<open>TypeError\<close> on \<open>null\<close> and \<open>undefined\<close>,
  \<open>undefined\<close> for a property the object does not have.
\<close>

definition cannot_read :: "string \<Rightarrow> string \<Rightarrow> string" where
  "cannot_read v k =
     ''Cannot read properties of '' @ v @ '' (reading '' @ [CHR 0x27] @ k @ [CHR 0x27] @ '')''"

fun get_prop :: "jsval \<Rightarrow> string \<Rightarrow> js_error + jsval" where
  "get_prop JUndefined k = Inl (TypeError (cannot_read ''undefined'' k))"
| "get_prop JNull k = Inl (TypeError (cannot_read ''null'' k))"
| "get_prop (JObj kvs) k = Inr (case map_of kvs k of None \<Rightarrow> JUndefined | Some v \<Rightarrow> v)"
| "get_prop v k = Inr JUndefined"

section \<open>The status envelope builder\<close>

text \<open>
  \<^verbatim>\<open>
  dabResponse(status = 200, error?: string): DabResponse {
      const response: DabResponse = { status: status };
      if (Math.floor(status / 100) !== 2) {
          if (!error) throw new Error("Error message must be returned for non 2XX status results");
          response.error = error;
      }
      return response;
  }
  \<close>
  The envelope carries an integer status, an optional error text and, once a handler has
  spread further fields into it (\<open>{...this.dabResponse(), frequency: f}\<close>), those
  fields in \<open>extra\<close>. \<open>Math.floor(status / 100)\<close> is \<open>div\<close> on \<open>int\<close>.
  \<open>!error\<close> holds for a missing and for an empty error text.
\<close>

record dab_response =
  status :: int
  error :: "string option"
  extra :: "(string \<times> jsval) list"

definition dabResponse :: "int \<Rightarrow> string option \<Rightarrow> js_error + dab_response" where
  "dabResponse st err =
     (if st div 100 \<noteq> 2 then
        (if err = None \<or> err = Some [] then
           Inl (Error ''Error message must be returned for non 2XX status results'')
         else Inr \<lparr>status = st, error = err, extra = []\<rparr>)
      else Inr \<lparr>status = st, error = None, extra = []\<rparr>)"

text \<open>\<open>{ ...r, ...{k: v} }\<close>\<close>

definition spread :: "dab_response \<Rightarrow> (string \<times> jsval) list \<Rightarrow> dab_response" where
  "spread r kvs = r\<lparr>extra := extra r @ kvs\<rparr>"

section \<open>The telemetry session manager\<close>

text \<open>
  \<open>DabDeviceBase\<close> keeps one object \<open>this.telemetry\<close> whose properties are interval
  handles: the device session under the property \<open>device\<close>, an application's session
  under its \<open>appId\<close>. The runtime's table of active interval timers is made explicit
  (\<open>intervals\<close>): \<open>setInterval\<close> adds a timer under a fresh handle,
  \<open>clearInterval\<close> removes it, and only a timer in the table can tick.

  The telemetry callback is opaque: \<open>Invoke p\<close> records one call \<open>cb()\<close>,
  \<open>Produced p\<close> is the value such a call returned, and \<open>TheCallback p\<close> is the
  function object itself.
\<close>

type_synonym timer = nat

datatype 'p payload = Produced 'p | TheCallback 'p

datatype 'p action =
    Invoke 'p
  | Publish string "'p payload"
  | SetInterval timer jsval
  | ClearInterval timer

text \<open>
  What a session's job passes to \<open>publish\<close>: \<open>await cb()\<close> in
  \<open>startDeviceTelemetryImpl\<close>, \<open>await cb\<close> in \<open>startAppTelemetryImpl\<close>.
\<close>

datatype 'p source = CallProducer 'p | PassCallback 'p

record 'p job =
  job_topic :: string
  job_source :: "'p source"
  job_period :: jsval

record 'p dab_state =
  telemetry :: "string \<Rightarrow> timer option"
  intervals :: "(timer \<times> 'p job) list"
  next_timer :: timer

definition init_state :: "'p dab_state" where
  "init_state = \<lparr>telemetry = (\<lambda>k. None), intervals = [], next_timer = 0\<rparr>"

text \<open>
  \<open>this.telemetry\<close> is created as \<open>{}\<close>, so a read \<open>this.telemetry[k]\<close> with
  a computed key finds, besides the handles stored in it, the properties that every object
  inherits from \<open>Object.prototype\<close>; all of them are truthy. \<open>telemetry\<close> above
  holds the object's own properties. (\<open>device\<close> is not an inherited name, so
  \<open>this.telemetry.device\<close> is the own property.)
\<close>

definition object_prototype_names :: "string list" where
  "object_prototype_names =
     [''constructor'', ''__defineGetter__'', ''__defineSetter__'', ''hasOwnProperty'',
      ''__lookupGetter__'', ''__lookupSetter__'', ''isPrototypeOf'', ''propertyIsEnumerable'',
      ''toString'', ''valueOf'', ''__proto__'', ''toLocaleString'']"

datatype slot = Absent | Inherited | Handle timer

definition telemetry_slot :: "'p dab_state \<Rightarrow> string \<Rightarrow> slot" where
  "telemetry_slot s k =
     (case telemetry s k of
        Some t \<Rightarrow> Handle t
      | None \<Rightarrow> if k \<in> set object_prototype_names then Inherited else Absent)"

text \<open>One run of a job: \<open>await this.client.publish(topic, await cb())\<close>, or with \<open>await cb\<close>.\<close>

fun source_calls :: "'p source \<Rightarrow> 'p action list" where
  "source_calls (CallProducer p) = [Invoke p]"
| "source_calls (PassCallback p) = []"

fun source_payload :: "'p source \<Rightarrow> 'p payload" where
  "source_payload (CallProducer p) = Produced p"
| "source_payload (PassCallback p) = TheCallback p"

definition job_actions :: "'p job \<Rightarrow> 'p action list" where
  "job_actions j = source_calls (job_source j) @ [Publish (job_topic j) (source_payload (job_source j))]"

text \<open>The timer \<open>t\<close> fires: its job runs if the timer is still active, nothing happens otherwise.\<close>

definition tick :: "timer \<Rightarrow> 'p dab_state \<Rightarrow> 'p action list" where
  "tick t s = (case map_of (intervals s) t of None \<Rightarrow> [] | Some j \<Rightarrow> job_actions j)"

definition setInterval :: "'p job \<Rightarrow> 'p dab_state \<Rightarrow> timer \<times> 'p dab_state" where
  "setInterval j s =
     (next_timer s, s\<lparr>intervals := intervals s @ [(next_timer s, j)], next_timer := Suc (next_timer s)\<rparr>)"

definition clearInterval :: "timer \<Rightarrow> 'p dab_state \<Rightarrow> 'p dab_state" where
  "clearInterval t s = s\<lparr>intervals := filter (\<lambda>(t', j). t' \<noteq> t) (intervals s)\<rparr>"

text \<open>The active timers that publish to a topic: the sessions running for that topic's key.\<close>

definition sessions_on :: "string \<Rightarrow> 'p dab_state \<Rightarrow> timer list" where
  "sessions_on topic s = map fst (filter (\<lambda>(t, j). job_topic j = topic) (intervals s))"

subsection \<open>Starting a session\<close>

text \<open>
  \<^verbatim>\<open>
  async startDeviceTelemetryImpl(data, cb) {
      if (!Number.isInteger(data.frequency))
          return this.dabResponse(400, "'frequency' must be set as number of milliseconds between updates");
      if (this.telemetry.device) return this.dabResponse(400, `Device telemetry is already started, stop it first`);
      await this.client.publish(topics.TELEMETRY_METRICS_TOPIC, await cb());
      this.telemetry.device = setInterval(async () => {
          await this.client.publish(topics.TELEMETRY_METRICS_TOPIC, await cb());
      }, data.frequency);
      return { ...this.dabResponse(), ...{ frequency: data.frequency } };
  }
  \<close>
  The function is \<open>async\<close>: it runs up to its first \<open>await\<close>, and other tasks
  (other inbound requests, timers) run before it is resumed. A call is therefore three
  steps: \<open>_begin\<close> (the checks, up to the first \<open>await\<close>), \<open>publish_first\<close>
  (the awaited callback value has arrived, \<open>publish\<close> is called and awaited) and
  \<open>install\<close> (the publish has settled, the interval is set and the response returned).
  \<open>start_call\<close> is what the suspended call remembers. The value of
  \<open>topics.TELEMETRY_METRICS_TOPIC\<close> (\<open>dab_topics.js\<close>) is the parameter \<open>mt\<close>.
\<close>

record 'p start_call =
  call_key :: string
  call_topic :: string
  call_source :: "'p source"
  call_frequency :: jsval

datatype 'p progress = Finished "js_error + dab_response" | Suspended "'p start_call"

datatype await_result = Fulfilled | Rejected js_error

record start_device_req =
  frequency :: jsval

record start_app_req =
  appId :: jsval
  app_frequency :: jsval

definition frequency_message :: string where
  \<open>frequency_message = ''\'frequency\' must be set as number of milliseconds between updates''\<close>

definition app_start_message :: string where
  \<open>app_start_message = ''\'app\' must be set as the application id to start sending telemetry''\<close>

definition app_stop_message :: string where
  \<open>app_stop_message = ''\'app\' must be set as the application id to stop sending telemetry''\<close>

definition startDeviceTelemetryImpl_begin ::
    "string \<Rightarrow> start_device_req \<Rightarrow> 'p \<Rightarrow> 'p dab_state \<Rightarrow> 'p progress \<times> 'p action list" where
  "startDeviceTelemetryImpl_begin mt data cb s =
     (if \<not> isInteger (frequency data) then
        (Finished (dabResponse 400 (Some frequency_message)), [])
      else if telemetry s ''device'' \<noteq> None then
        (Finished (dabResponse 400 (Some ''Device telemetry is already started, stop it first'')), [])
      else
        (Suspended \<lparr>call_key = ''device'', call_topic = mt,
                     call_source = CallProducer cb, call_frequency = frequency data\<rparr>,
         source_calls (CallProducer cb)))"

text \<open>
  \<^verbatim>\<open>
  async startAppTelemetryImpl(data, cb) {
      if (typeof cb !== "function") return this.dabResponse(400, "App telemetry callback is not a function");
      if (typeof data.appId !== "string")
          return this.dabResponse(400, "'app' must be set as the application id to start sending telemetry");
      if (typeof data.frequency !== "number" || !Number.isInteger(data.frequency))
          return this.dabResponse(400, "'frequency' must be set as number of milliseconds between updates");
      if (this.telemetry[data.appId])
          return this.dabResponse(400, `App telemetry is already started for ${data.appId}, stop it first`);
      await this.client.publish(`${topics.TELEMETRY_METRICS_TOPIC}/${data.appId}`, await cb);
      this.telemetry[data.appId] = setInterval(async () => {
          await this.client.publish(`${topics.TELEMETRY_METRICS_TOPIC}/${data.appId}`, await cb);
      }, data.frequency);
      return { ...this.dabResponse(), ...{ frequency: data.frequency } };
  }
  \<close>
  \<open>cb\<close> is \<open>None\<close> when the argument is not a function. Both publishes pass
  \<open>await cb\<close>, the function itself, not \<open>await cb()\<close>.
\<close>

definition startAppTelemetryImpl_begin ::
    "string \<Rightarrow> start_app_req \<Rightarrow> 'p option \<Rightarrow> 'p dab_state \<Rightarrow> 'p progress \<times> 'p action list" where
  "startAppTelemetryImpl_begin mt data cb s =
     (case cb of
        None \<Rightarrow> (Finished (dabResponse 400 (Some ''App telemetry callback is not a function'')), [])
      | Some p \<Rightarrow>
          (case appId data of
             JStr a \<Rightarrow>
               (if \<not> is_number (app_frequency data) then
                  (Finished (dabResponse 400 (Some frequency_message)), [])
                else if \<not> isInteger (app_frequency data) then
                  (Finished (dabResponse 400 (Some frequency_message)), [])
                else if telemetry_slot s a \<noteq> Absent then
                  (Finished (dabResponse 400
                     (Some (''App telemetry is already started for '' @ a @ '', stop it first''))), [])
                else
                  (Suspended \<lparr>call_key = a, call_topic = mt @ ''/'' @ a,
                               call_source = PassCallback p, call_frequency = app_frequency data\<rparr>,
                   source_calls (PassCallback p)))
           | _ \<Rightarrow>
               (Finished (dabResponse 400
                  (Some app_start_message)), [])))"

text \<open>
  The awaited callback value has arrived (or the callback has failed, which rejects the
  call): \<open>this.client.publish(topic, value)\<close> is called and awaited.
\<close>

definition publish_first :: "'p start_call \<Rightarrow> await_result \<Rightarrow> js_error + 'p action list" where
  "publish_first c res =
     (case res of
        Rejected e \<Rightarrow> Inl e
      | Fulfilled \<Rightarrow> Inr [Publish (call_topic c) (source_payload (call_source c))])"

text \<open>
  The first publish has settled (a failure rejects the call):
  \<open>this.telemetry[key] = setInterval(job, data.frequency)\<close>, and the response is
  \<open>{ ...this.dabResponse(), ...{ frequency: data.frequency } }\<close>.
\<close>

definition with_fields :: "js_error + dab_response \<Rightarrow> (string \<times> jsval) list \<Rightarrow> js_error + dab_response" where
  "with_fields r kvs = (case r of Inl e \<Rightarrow> Inl e | Inr e \<Rightarrow> Inr (spread e kvs))"

definition install ::
    "'p start_call \<Rightarrow> await_result \<Rightarrow> 'p dab_state \<Rightarrow> (js_error + dab_response) \<times> 'p dab_state \<times> 'p action list" where
  "install c res s =
     (case res of
        Rejected e \<Rightarrow> (Inl e, s, [])
      | Fulfilled \<Rightarrow>
          (case setInterval \<lparr>job_topic = call_topic c, job_source = call_source c,
                              job_period = call_frequency c\<rparr> s of
             (t, s') \<Rightarrow>
               (with_fields (dabResponse 200 None) [(''frequency'', call_frequency c)],
                s'\<lparr>telemetry := (telemetry s')(call_key c \<mapsto> t)\<rparr>,
                [SetInterval t (call_frequency c)])))"

text \<open>
  A call that nothing interleaves with and whose awaits are all fulfilled: the three steps
  in a row, on one state.
\<close>

definition uninterrupted ::
    "'p progress \<times> 'p action list \<Rightarrow> 'p dab_state \<Rightarrow> (js_error + dab_response) \<times> 'p dab_state \<times> 'p action list" where
  "uninterrupted b s =
     (case b of
        (Finished r, acts) \<Rightarrow> (r, s, acts)
      | (Suspended c, acts) \<Rightarrow>
          (case publish_first c Fulfilled of
             Inl e \<Rightarrow> (Inl e, s, acts)
           | Inr acts' \<Rightarrow>
               (case install c Fulfilled s of
                  (r, s', acts'') \<Rightarrow> (r, s', acts @ acts' @ acts''))))"

text \<open>
  \<open>DabDevice.startDeviceTelemetry\<close>, the adb bridge's handler:
  \<^verbatim>\<open>
  if (typeof data.frequency !== "number" || !Number.isInteger(data.frequency))
      return this.dabResponse(400, "'frequency' must be set as number of milliseconds between updates");
  const platformMinFrequency: number = config.get("adb.minTelemetryMillis");
  if (data.frequency < platformMinFrequency) {
      data.frequency = platformMinFrequency; //Setting minimum frequency for Android
  }
  return await this.startDeviceTelemetryImpl(data, async () => { return await this.adb.top(); });
  \<close>
  \<open>platformMinFrequency\<close> is the configured number, \<open>adb_top\<close> the callback.
\<close>

definition startDeviceTelemetry ::
    "string \<Rightarrow> rat \<Rightarrow> 'p \<Rightarrow> start_device_req \<Rightarrow> 'p dab_state \<Rightarrow> 'p progress \<times> 'p action list" where
  "startDeviceTelemetry mt platformMinFrequency adb_top data s =
     (case frequency data of
        JNum f \<Rightarrow>
          (if \<not> isInteger (JNum f) then (Finished (dabResponse 400 (Some frequency_message)), [])
           else startDeviceTelemetryImpl_begin mt
                  (if f < platformMinFrequency then data\<lparr>frequency := JNum platformMinFrequency\<rparr> else data)
                  adb_top s)
      | _ \<Rightarrow> (Finished (dabResponse 400 (Some frequency_message)), []))"

subsection \<open>Stopping a session\<close>

text \<open>
  \<^verbatim>\<open>
  stopDeviceTelemetryImpl = async () => {
      if (!this.telemetry.device) {
          return this.dabResponse(400, "Device telemetry not started");
      } else {
          clearInterval(this.telemetry.device);
          delete this.telemetry.device;
          return this.dabResponse();
      }
  };
  stopAppTelemetry = async (data) => {
      if (typeof data.appId !== "string")
          return this.dabResponse(400, "'app' must be set as the application id to stop sending telemetry");
      if (!this.telemetry[data.appId]) {
          return this.dabResponse(400, "Device telemetry for ${data.app} not started");
      } else {
          clearInterval(this.telemetry[data.appId]);
          delete this.telemetry[data.appId];
          return this.dabResponse();
      }
  };
  \<close>
  Neither awaits anything: each runs to its end in one step. The not-started text of
  \<open>stopAppTelemetry\<close> is a plain string, so its \<open>${data.app}\<close> is literal.
  When \<open>this.telemetry[data.appId]\<close> is an inherited property, \<open>clearInterval\<close>
  is given a value that is no timer and \<open>delete\<close> finds no own property: neither
  does anything.
\<close>

record stop_app_req =
  stop_appId :: jsval

definition stopDeviceTelemetryImpl ::
    "'p dab_state \<Rightarrow> (js_error + dab_response) \<times> 'p dab_state \<times> 'p action list" where
  "stopDeviceTelemetryImpl s =
     (case telemetry s ''device'' of
        None \<Rightarrow> (dabResponse 400 (Some ''Device telemetry not started''), s, [])
      | Some t \<Rightarrow>
          (dabResponse 200 None,
           (clearInterval t s)\<lparr>telemetry := (telemetry s)(''device'' := None)\<rparr>,
           [ClearInterval t]))"

definition stopAppTelemetry ::
    "stop_app_req \<Rightarrow> 'p dab_state \<Rightarrow> (js_error + dab_response) \<times> 'p dab_state \<times> 'p action list" where
  "stopAppTelemetry data s =
     (case stop_appId data of
        JStr a \<Rightarrow>
          (case telemetry_slot s a of
             Absent \<Rightarrow> (dabResponse 400 (Some ''Device telemetry for ${data.app} not started''), s, [])
           | Inherited \<Rightarrow> (dabResponse 200 None, s, [])
           | Handle t \<Rightarrow>
               (dabResponse 200 None,
                (clearInterval t s)\<lparr>telemetry := (telemetry s)(a := None)\<rparr>,
                [ClearInterval t]))
      | _ \<Rightarrow>
          (dabResponse 400 (Some app_stop_message),
           s, []))"

subsection \<open>Calls that do not overlap\<close>

text \<open>
  A history in which every start and stop request runs to its end before the next one
  begins. \<open>recorded\<close> is the invariant of such histories: the active timers have
  distinct handles, and each is the handle stored under the key its topic belongs to
  (\<open>key_of\<close>).
\<close>

datatype 'p call =
    StartDevice start_device_req 'p
  | StartApp start_app_req "'p option"
  | StopDevice
  | StopApp stop_app_req

fun perform :: "string \<Rightarrow> 'p call \<Rightarrow> 'p dab_state \<Rightarrow> 'p dab_state" where
  "perform mt (StartDevice d p) s = fst (snd (uninterrupted (startDeviceTelemetryImpl_begin mt d p s) s))"
| "perform mt (StartApp d cb) s = fst (snd (uninterrupted (startAppTelemetryImpl_begin mt d cb s) s))"
| "perform mt StopDevice s = fst (snd (stopDeviceTelemetryImpl s))"
| "perform mt (StopApp d) s = fst (snd (stopAppTelemetry d s))"

fun perform_all :: "string \<Rightarrow> 'p call list \<Rightarrow> 'p dab_state \<Rightarrow> 'p dab_state" where
  "perform_all mt [] s = s"
| "perform_all mt (c # cs) s = perform_all mt cs (perform mt c s)"

definition key_of :: "string \<Rightarrow> string \<Rightarrow> string" where
  "key_of mt topic = (if topic = mt then ''device'' else drop (Suc (length mt)) topic)"

definition recorded :: "string \<Rightarrow> 'p dab_state \<Rightarrow> bool" where
  "recorded mt s =
     (distinct (map fst (intervals s))
      \<and> (\<forall>(t, j) \<in> set (intervals s). t < next_timer s \<and> telemetry s (key_of mt (job_topic j)) = Some t))"

subsection \<open>Example states\<close>

text \<open>
  Concrete states for the closed theorems below: the device session started from the
  initial state, then an application session started as well.
\<close>

definition example_topic :: string where
  "example_topic = ''dab/device-telemetry/metrics''"

definition device_running :: "string dab_state" where
  "device_running =
     fst (snd (uninterrupted
       (startDeviceTelemetryImpl_begin example_topic \<lparr>frequency = JNum 1000\<rparr> ''top'' init_state)
       init_state))"

definition both_running :: "string dab_state" where
  "both_running =
     fst (snd (uninterrupted
       (startAppTelemetryImpl_begin example_topic \<lparr>appId = JStr ''youtube'', app_frequency = JNum 500\<rparr>
          (Some ''collect'') device_running)
       device_running))"

text \<open>
  Two calls of \<open>startDeviceTelemetryImpl\<close> that overlap: both pass the checks in the
  initial state and are suspended (\<open>first_call\<close> is what either remembers), then both
  are resumed. And one uninterrupted call of \<open>startAppTelemetryImpl\<close>.
\<close>

definition first_call :: "string start_call" where
  "first_call = \<lparr>call_key = ''device'', call_topic = example_topic,
                  call_source = CallProducer ''top'', call_frequency = JNum 1000\<rparr>"

definition overlapped :: "string dab_state" where
  "overlapped =
     fst (snd (install first_call Fulfilled (fst (snd (install first_call Fulfilled init_state)))))"

definition app_start_run :: "(js_error + dab_response) \<times> string dab_state \<times> string action list" where
  "app_start_run =
     uninterrupted
       (startAppTelemetryImpl_begin example_topic \<lparr>appId = JStr ''youtube'', app_frequency = JNum 500\<rparr>
          (Some ''collect'') init_state)
       init_state"

section \<open>The MQTT client: inbound messages\<close>

text \<open>
  What the client takes from its runtime and from \<open>util.js\<close>, neither of which is
  modelled further: \<open>JSON.parse\<close> (\<open>None\<close> when it throws),
  \<open>convertPattern\<close> (the broker's wildcard syntax to the emitter's), and the numeric
  value that a comparison gives to a string, an array or an object
  (\<open>None\<close> for \<open>NaN\<close>).
\<close>

record client_env =
  JSON_parse :: "string \<Rightarrow> jsval option"
  convertPattern :: "string \<Rightarrow> string"
  ToNumber_object :: "jsval \<Rightarrow> rat option"

text \<open>
  \<^verbatim>\<open>
  private handleMessage(topic: string, msg: Buffer, pkt: IPublishPacket): void {
      let response = {};
      if (msg && msg.length) {
          try {
              response = JSON.parse(msg.toString());
          } catch (error) {
              response = { status: 500, error: "failed to parse msg", msg: msg.toString(), packet: pkt };
          }
      }
      this.emitter.emit(topic, response, pkt);
  }
  \<close>
  The buffer is its text. The result is the triple passed to \<open>emitter.emit\<close>; the
  \<open>try\<close> catches whatever the parser throws, so there is no error result.
\<close>

definition parse_failure :: "string \<Rightarrow> publish_packet \<Rightarrow> jsval" where
  "parse_failure raw pkt =
     JObj [(''status'', JNum 500), (''error'', JStr ''failed to parse msg''),
           (''msg'', JStr raw), (''packet'', JPacket pkt)]"

definition handleMessage ::
    "client_env \<Rightarrow> string \<Rightarrow> string \<Rightarrow> publish_packet \<Rightarrow> string \<times> jsval \<times> publish_packet" where
  "handleMessage env topic msg pkt =
     (topic,
      (if msg \<noteq> [] then
         (case JSON_parse env msg of Some v \<Rightarrow> v | None \<Rightarrow> parse_failure msg pkt)
       else JObj []),
      pkt)"

section \<open>The MQTT client: request\<close>

text \<open>
  \<^verbatim>\<open>
  public async subscribe(topic: string, callback: ListenerFn): Promise<HandlerSubscription> {
      const event = convertPattern(topic);
      this.emitter.on(event, callback);
      await this.client.subscribe(topic);
      return {
          end: async () => {
              this.emitter.removeListener(event, callback);
              if (this.emitter.listeners(event).length === 0) {
                  await this.client.unsubscribe(topic);
              }
          }
      };
  }

  public async request(topic, payload = {}, options = { qos: 2, timeoutMs: 5000 }) {
      const requestId = uuidv4();
      const requestTopic = `${topic}/${requestId}`;
      const timeout = options.timeoutMs || 5000;
      return new Promise((resolve, reject) => {
          const timer = setTimeout(function () {
              reject(new TimeoutError(`Failed to receive response from ${topic} within ${timeout}ms`));
              subscriptionPromise.then(s => s.end());
          }, timeout);
          const subscriptionPromise = this.subscribe(`_response/${requestTopic}`, function (msg) {
              clearTimeout(timer);
              if (msg.status > 299) {
                  reject(msg);
              } else {
                  resolve(msg);
              }
              subscriptionPromise.then(s => s.end());
          });
          this.publish(requestTopic, payload, options).catch(err => {
              subscriptionPromise.then(s => s.end());
              reject(err);
          });
      });
  }
  \<close>
  One call of \<open>request\<close> is a small state machine. Its state is the promise
  (\<open>settled\<close>: \<open>None\<close> while pending, \<open>Inr\<close> once resolved, \<open>Inl\<close> once
  rejected; \<open>resolve\<close> and \<open>reject\<close> on a settled promise do nothing), the timer,
  the listener on the emitter, \<open>subscriptionPromise\<close> with the \<open>s.end()\<close> reactions
  queued on it while it is pending, and the promise of the publish. The emitter belongs to
  the client and matches wildcards: \<open>other_listeners\<close> counts the listeners that
  \<open>emitter.listeners(event)\<close> finds for the response event besides the call's own
  (a listener registered on a pattern such as \<open>**\<close> is one). The calls the client makes
  on the timer, the emitter and the transport are recorded as actions.
\<close>

datatype client_action =
    SetTimeout rat
  | ClearTimeout
  | EmitterOn string
  | RemoveListener string
  | Subscribe string
  | Unsubscribe string
  | PublishMsg string jsval

datatype promise_state = Pending | IsFulfilled | IsRejected

record request_state =
  settled :: "(js_error + jsval) option"
  timer_armed :: bool
  listening :: bool
  subscription :: promise_state
  queued_ends :: nat
  publishing :: promise_state
  other_listeners :: nat

text \<open>
  The arguments of a call, the uuid generated for it, and the number of listeners that
  the emitter already holds for its response event when it starts.
\<close>

record request_cfg =
  req_topic :: string
  req_id :: string
  req_payload :: jsval
  req_timeoutMs :: "rat option"
  req_other_listeners :: nat

definition requestTopic :: "request_cfg \<Rightarrow> string" where
  "requestTopic cfg = req_topic cfg @ ''/'' @ req_id cfg"

definition responseTopic :: "request_cfg \<Rightarrow> string" where
  "responseTopic cfg = ''_response/'' @ requestTopic cfg"

text \<open>\<open>options.timeoutMs || 5000\<close>: a missing and a zero timeout both give 5000.\<close>

definition timeout_of :: "request_cfg \<Rightarrow> rat" where
  "timeout_of cfg = (case req_timeoutMs cfg of None \<Rightarrow> 5000 | Some t \<Rightarrow> if t = 0 then 5000 else t)"

text \<open>
  The synchronous part of the call, in source order: the timer is set, \<open>subscribe\<close>
  runs up to its \<open>await\<close> (listener registered, SUBSCRIBE handed to the transport),
  and \<open>publish\<close> hands the request to the transport.
\<close>

definition request_start :: "client_env \<Rightarrow> request_cfg \<Rightarrow> request_state \<times> client_action list" where
  "request_start env cfg =
     (\<lparr>settled = None, timer_armed = True, listening = True, subscription = Pending,
       queued_ends = 0, publishing = Pending, other_listeners = req_other_listeners cfg\<rparr>,
      [SetTimeout (timeout_of cfg),
       EmitterOn (convertPattern env (responseTopic cfg)),
       Subscribe (responseTopic cfg),
       PublishMsg (requestTopic cfg) (req_payload cfg)])"

text \<open>\<open>resolve(v)\<close> and \<open>reject(e)\<close>: only a pending promise changes.\<close>

definition settle :: "js_error + jsval \<Rightarrow> request_state \<Rightarrow> request_state" where
  "settle outcome s = (if settled s = None then s\<lparr>settled := Some outcome\<rparr> else s)"

text \<open>
  \<open>s.end()\<close>: the call's listener is removed, and the topic is unsubscribed only
  \<open>if (this.emitter.listeners(event).length === 0)\<close>, that is when no other listener
  matches the response event.
\<close>

definition end_subscription ::
    "client_env \<Rightarrow> request_cfg \<Rightarrow> request_state \<Rightarrow> request_state \<times> client_action list" where
  "end_subscription env cfg s =
     (s\<lparr>listening := False\<rparr>,
      RemoveListener (convertPattern env (responseTopic cfg)) #
        (if other_listeners s = 0 then [Unsubscribe (responseTopic cfg)] else []))"

text \<open>
  \<open>subscriptionPromise.then(s => s.end())\<close>: the reaction runs at once (as a microtask)
  when the promise is fulfilled, waits while it is pending, and never runs when it is
  rejected.
\<close>

definition then_end ::
    "client_env \<Rightarrow> request_cfg \<Rightarrow> request_state \<Rightarrow> request_state \<times> client_action list" where
  "then_end env cfg s =
     (case subscription s of
        IsFulfilled \<Rightarrow> end_subscription env cfg s
      | Pending \<Rightarrow> (s\<lparr>queued_ends := Suc (queued_ends s)\<rparr>, [])
      | IsRejected \<Rightarrow> (s, []))"

text \<open>
  The comparison \<open>v > 299\<close>: \<open>v\<close> is converted to a number first; \<open>undefined\<close>
  becomes \<open>NaN\<close>, and every comparison with \<open>NaN\<close> is false.
\<close>

fun ToNumber :: "client_env \<Rightarrow> jsval \<Rightarrow> rat option" where
  "ToNumber env JUndefined = None"
| "ToNumber env JNull = Some 0"
| "ToNumber env (JBool b) = Some (if b then 1 else 0)"
| "ToNumber env (JNum r) = Some r"
| "ToNumber env v = ToNumber_object env v"

definition js_gt :: "client_env \<Rightarrow> jsval \<Rightarrow> rat \<Rightarrow> bool" where
  "js_gt env v r = (case ToNumber env v of None \<Rightarrow> False | Some x \<Rightarrow> r < x)"

text \<open>
  The listener of the response topic is called with a message: the timer is cleared,
  \<open>msg.status\<close> is read (a \<open>TypeError\<close> on \<open>null\<close>, which ends the listener
  there), the promise is rejected or resolved, and the subscription's end is scheduled.
\<close>

definition on_response ::
    "client_env \<Rightarrow> request_cfg \<Rightarrow> jsval \<Rightarrow> request_state \<Rightarrow> request_state \<times> client_action list" where
  "on_response env cfg msg s =
     (case get_prop msg ''status'' of
        Inl e \<Rightarrow> (s\<lparr>timer_armed := False\<rparr>, [ClearTimeout])
      | Inr st \<Rightarrow>
          (case then_end env cfg
                  (settle (if js_gt env st 299 then Inl (Thrown msg) else Inr msg)
                     (s\<lparr>timer_armed := False\<rparr>)) of
             (s', acts) \<Rightarrow> (s', ClearTimeout # acts)))"

text \<open>The timer's function and the \<open>catch\<close> of the publish.\<close>

definition on_timeout ::
    "client_env \<Rightarrow> request_cfg \<Rightarrow> request_state \<Rightarrow> request_state \<times> client_action list" where
  "on_timeout env cfg s =
     then_end env cfg
       (settle (Inl (TimeoutError (req_topic cfg) (timeout_of cfg))) (s\<lparr>timer_armed := False\<rparr>))"

definition on_publish_error ::
    "client_env \<Rightarrow> request_cfg \<Rightarrow> js_error \<Rightarrow> request_state \<Rightarrow> request_state \<times> client_action list" where
  "on_publish_error env cfg err s =
     (case then_end env cfg (s\<lparr>publishing := IsRejected\<rparr>) of
        (s', acts) \<Rightarrow> (settle (Inl err) s', acts))"

text \<open>\<open>subscriptionPromise\<close> is fulfilled: the queued reactions run, each calling \<open>s.end()\<close>.\<close>

fun run_ends ::
    "client_env \<Rightarrow> request_cfg \<Rightarrow> nat \<Rightarrow> request_state \<Rightarrow> request_state \<times> client_action list" where
  "run_ends env cfg 0 s = (s, [])"
| "run_ends env cfg (Suc n) s =
     (case end_subscription env cfg s of
        (s', acts) \<Rightarrow> (case run_ends env cfg n s' of (s'', acts') \<Rightarrow> (s'', acts @ acts')))"

definition on_subscribed ::
    "client_env \<Rightarrow> request_cfg \<Rightarrow> request_state \<Rightarrow> request_state \<times> client_action list" where
  "on_subscribed env cfg s =
     run_ends env cfg (queued_ends s) (s\<lparr>subscription := IsFulfilled, queued_ends := 0\<rparr>)"

text \<open>
  What can happen to a call after its start. An event that cannot occur in a state (the
  timer fires when it is not armed, a promise settles twice, a message arrives when the
  listener is gone) changes nothing. \<open>ListenersChanged n\<close>: other code of the client
  has added or removed listeners, and \<open>n\<close> others now match the response event.
\<close>

datatype event =
    SubscribeAcked
  | SubscribeFailed js_error
  | Message jsval
  | TimerFired
  | PublishDone
  | PublishFailed js_error
  | ListenersChanged nat

fun step ::
    "client_env \<Rightarrow> request_cfg \<Rightarrow> event \<Rightarrow> request_state \<Rightarrow> request_state \<times> client_action list" where
  "step env cfg SubscribeAcked s =
     (if subscription s = Pending then on_subscribed env cfg s else (s, []))"
| "step env cfg (SubscribeFailed e) s =
     (if subscription s = Pending then (s\<lparr>subscription := IsRejected, queued_ends := 0\<rparr>, []) else (s, []))"
| "step env cfg (Message msg) s =
     (if listening s then on_response env cfg msg s else (s, []))"
| "step env cfg TimerFired s =
     (if timer_armed s then on_timeout env cfg s else (s, []))"
| "step env cfg PublishDone s =
     (if publishing s = Pending then (s\<lparr>publishing := IsFulfilled\<rparr>, []) else (s, []))"
| "step env cfg (PublishFailed err) s =
     (if publishing s = Pending then on_publish_error env cfg err s else (s, []))"
| "step env cfg (ListenersChanged n) s = (s\<lparr>other_listeners := n\<rparr>, [])"

fun run ::
    "client_env \<Rightarrow> request_cfg \<Rightarrow> event list \<Rightarrow> request_state \<Rightarrow> request_state \<times> client_action list" where
  "run env cfg [] s = (s, [])"
| "run env cfg (e # es) s =
     (case step env cfg e s of
        (s', acts) \<Rightarrow> (case run env cfg es s' of (s'', acts') \<Rightarrow> (s'', acts @ acts')))"


text \<open>A message on the response topic, from the transport to the listener.\<close>

definition inbound ::
    "client_env \<Rightarrow> request_cfg \<Rightarrow> string \<Rightarrow> publish_packet \<Rightarrow> request_state \<Rightarrow> request_state \<times> client_action list" where
  "inbound env cfg raw pkt s =
     step env cfg (Message (fst (snd (handleMessage env (responseTopic cfg) raw pkt)))) s"

subsection \<open>An example runtime\<close>

text \<open>
  A runtime for the closed theorems. \<open>parse_literals\<close> agrees with \<open>JSON.parse\<close> on
  the documents used below (the empty text and \<open>not json\<close> are rejected, \<open>{}\<close> and
  \<open>null\<close> are read). \<open>example_convertPattern\<close> turns the broker's wildcards
  \<open>+\<close> and \<open>#\<close> into the emitter's \<open>*\<close> and \<open>**\<close>; the topics used below
  have none. No status used below is a string, an array or an object.
\<close>

definition parse_literals :: "string \<Rightarrow> jsval option" where
  "parse_literals s =
     (if s = ''{}'' then Some (JObj []) else if s = ''null'' then Some JNull else None)"

fun convert_char :: "char \<Rightarrow> string" where
  "convert_char c = (if c = CHR ''+'' then ''*'' else if c = CHR ''#'' then ''**'' else [c])"

definition example_convertPattern :: "string \<Rightarrow> string" where
  "example_convertPattern topic = concat (map convert_char topic)"

definition example_env :: client_env where
  "example_env = \<lparr>JSON_parse = parse_literals, convertPattern = example_convertPattern,
                  ToNumber_object = (\<lambda>v. None)\<rparr>"

definition example_packet :: publish_packet where
  "example_packet = \<lparr>pkt_topic = ''_response/applications/list/42'', pkt_payload = [],
                     pkt_qos = 2, pkt_retain = False\<rparr>"

definition example_cfg :: request_cfg where
  "example_cfg = \<lparr>req_topic = ''applications/list'', req_id = ''42'', req_payload = JObj [],
                  req_timeoutMs = None, req_other_listeners = 0\<rparr>"

text \<open>The same call on a client that also listens on a pattern covering the response event.\<close>

definition shared_cfg :: request_cfg where
  "shared_cfg = \<lparr>req_topic = ''applications/list'', req_id = ''42'', req_payload = JObj [],
                 req_timeoutMs = None, req_other_listeners = 1\<rparr>"

text \<open>The example call after the SUBACK has arrived and its publish has failed.\<close>

definition after_publish_failure :: request_state where
  "after_publish_failure =
     fst (run example_env example_cfg [SubscribeAcked, PublishFailed (Error ''client disconnecting'')]
            (fst (request_start example_env example_cfg)))"

section \<open>The adb bridge: application handlers\<close>

text \<open>
  \<open>DabDevice\<close> looks applications up in \<open>appMap\<close> (the \<open>appMap\<close> of the
  configuration): an entry is one implementation object, or an array of alternatives that
  \<open>listApps\<close> later replaces by the installed one. Of an array, \<open>.intent\<close> and
  \<open>.package\<close> are \<open>undefined\<close>.
\<close>

record app_impl =
  package :: "string option"
  friendlyName :: "string option"
  intent :: "string list option"
  optionsPrefix :: "string list option"

datatype app_entry = Impl app_impl | Impls "app_impl list"

fun entry_intent :: "app_entry \<Rightarrow> string list option" where
  "entry_intent (Impl i) = intent i"
| "entry_intent (Impls xs) = None"

fun entry_package :: "app_entry \<Rightarrow> string option" where
  "entry_package (Impl i) = package i"
| "entry_package (Impls xs) = None"

fun entry_optionsPrefix :: "app_entry \<Rightarrow> string list option" where
  "entry_optionsPrefix (Impl i) = optionsPrefix i"
| "entry_optionsPrefix (Impls xs) = None"

text \<open>
  What the handlers take from outside the sources given: the runtime's
  \<open>String.prototype.toLowerCase\<close> and its conversion of a value to a string (for
  \<open>+\<close>), the configured \<open>appMap\<close>, the adb commands (\<open>adb_commands.js\<close>: each
  acts on the device \<open>'w\<close> and either returns or throws an error with a message), the
  two members of \<open>AndroidApplicationStatus\<close> and of \<open>ApplicationState\<close> that the
  handlers name, and \<open>adbAppStatusToDabAppState\<close> of \<open>util.js\<close>. \<open>adb.status\<close>
  returns \<open>None\<close> for \<open>undefined\<close> and otherwise the \<open>state\<close> of its result.
  Logging is not modelled.
\<close>

record ('w, 'st) bridge_env =
  toLowerCase :: "string \<Rightarrow> string"
  ToString :: "jsval \<Rightarrow> string"
  appMap :: "string \<Rightarrow> app_entry option"
  adb_start :: "jsval list \<Rightarrow> 'w \<Rightarrow> (string + unit) \<times> 'w"
  adb_status :: "string \<Rightarrow> 'w \<Rightarrow> (string + 'st option) \<times> 'w"
  adb_stop :: "string \<Rightarrow> 'w \<Rightarrow> (string + unit) \<times> 'w"
  adb_backgroundApp :: "string \<Rightarrow> 'w \<Rightarrow> (string + unit) \<times> 'w"
  status_Stopped :: 'st
  status_Running :: 'st
  state_Stopped :: jsval
  state_Background :: jsval
  adbAppStatusToDabAppState :: "'st option \<Rightarrow> jsval"

record launch_req =
  launch_appId :: jsval
  parameters :: jsval

record exit_req =
  exit_appId :: jsval
  force :: jsval

record state_req =
  state_appId :: jsval

definition not_found_message :: "string \<Rightarrow> string" where
  \<open>not_found_message a = ''Couldn\'t find data for app '' @ a @ '' in config file''\<close>

definition launch_appId_message :: string where
  \<open>launch_appId_message = ''\'appId\' must be set as the application id to launch''\<close>

definition exit_appId_message :: string where
  \<open>exit_appId_message = ''\'appId\' must be set as the application id to exit''\<close>

definition state_appId_message :: string where
  \<open>state_appId_message = ''\'appId\' must be set as the application id to query''\<close>

text \<open>
  \<^verbatim>\<open>
  let intent: string[] = this.appMap[data.appId].intent.slice();
  if (Array.isArray(data.parameters)) {
      if (this.appMap[data.appId].optionsPrefix) {
          intent = [...intent, ...this.appMap[data.appId].optionsPrefix];
      }
      intent = [...intent, ...data.parameters];
  } else if (data.parameters) {
      intent[intent.length - 1] = intent[intent.length - 1] + data.parameters;
  }
  \<close>
  On an empty intent the last assignment writes the property \<open>-1\<close> and adds no element.
\<close>

definition append_to_last :: "string list \<Rightarrow> string \<Rightarrow> string list" where
  "append_to_last xs p = (if xs = [] then [] else butlast xs @ [last xs @ p])"

definition launch_intent ::
    "('w, 'st) bridge_env \<Rightarrow> string list \<Rightarrow> string list option \<Rightarrow> jsval \<Rightarrow> jsval list" where
  "launch_intent env base prefix params =
     (case params of
        JArr ps \<Rightarrow>
          (case prefix of
             Some pre \<Rightarrow> map JStr base @ map JStr pre @ ps
           | None \<Rightarrow> map JStr base @ ps)
      | _ \<Rightarrow>
          (if truthy params then
             map JStr (append_to_last base (case params of JStr p \<Rightarrow> p | _ \<Rightarrow> ToString env params))
           else map JStr base))"

text \<open>
  \<^verbatim>\<open>
  override launchApp = async (data) => {
      if (typeof data.appId !== "string")
          return this.dabResponse(400, "'appId' must be set as the application id to launch");
      try {
          data.appId = data.appId.toLowerCase();
          if (!this.appMap[data.appId] || !this.appMap[data.appId].intent)
              return this.dabResponse(404, `Couldn't find data for app ${data.appId} in config file`);
          ... (the intent, as above)
          await this.adb.start(intent);
          return this.dabResponse();
      } catch (e) {
          logger.error(e);
          return this.dabResponse(500, e.message);
      }
  };
  \<close>
  The result is the response (or what the handler throws: \<open>dabResponse\<close> itself throws
  on an empty message) and the device after the call.
\<close>

definition launchApp ::
    "('w, 'st) bridge_env \<Rightarrow> launch_req \<Rightarrow> 'w \<Rightarrow> (js_error + dab_response) \<times> 'w" where
  "launchApp env data w =
     (case launch_appId data of
        JStr a \<Rightarrow>
          (let appId' = toLowerCase env a in
           case appMap env appId' of
             None \<Rightarrow> (dabResponse 404 (Some (not_found_message appId')), w)
           | Some entry \<Rightarrow>
               (case entry_intent entry of
                  None \<Rightarrow> (dabResponse 404 (Some (not_found_message appId')), w)
                | Some base \<Rightarrow>
                    (case adb_start env
                            (launch_intent env base (entry_optionsPrefix entry) (parameters data)) w of
                       (Inr u, w') \<Rightarrow> (dabResponse 200 None, w')
                     | (Inl message, w') \<Rightarrow> (dabResponse 500 (Some message), w'))))
      | _ \<Rightarrow> (dabResponse 400 (Some launch_appId_message), w))"

text \<open>
  \<^verbatim>\<open>
  override exitApp = async (data) => {
      if (typeof data.appId !== "string")
          return this.dabResponse(400, "'appId' must be set as the application id to exit");
      try {
          data.appId = data.appId.toLowerCase();
          const appPackage: string | undefined = this.appMap[data.appId]?.package;
          if (!appPackage) return this.dabResponse(404, `Couldn't find data for app ${data.appId} in config file`);
          const appStatus = (await this.adb.status(appPackage))?.state;
          if (data.force) {
              if (appStatus !== AndroidApplicationStatus.Stopped) {
                  await this.adb.stop(appPackage);
              }
              return { ...this.dabResponse(), state: ApplicationState.Stopped };
          }
          if (appStatus === AndroidApplicationStatus.Running) {
              try {
                  await this.adb.backgroundApp(appPackage);
                  return { ...this.dabResponse(), state: ApplicationState.Background };
              } catch (e) {
                  logger.warn(`Failed to background ${data.appId}, will try force closing it instead.`);
                  await this.adb.stop(appPackage);
                  return { ...this.dabResponse(), state: ApplicationState.Stopped };
              }
          }
          return { ...this.dabResponse(), state: adbAppStatusToDabAppState(appStatus) };
      } catch (e) {
          return this.dabResponse(500, e.message);
      }
  };
  \<close>
\<close>

definition lookup_package :: "('w, 'st) bridge_env \<Rightarrow> string \<Rightarrow> string option" where
  "lookup_package env a =
     (case appMap env a of
        None \<Rightarrow> None
      | Some entry \<Rightarrow>
          (case entry_package entry of
             None \<Rightarrow> None
           | Some p \<Rightarrow> if p = [] then None else Some p))"

definition stop_then ::
    "('w, 'st) bridge_env \<Rightarrow> string \<Rightarrow> 'w \<Rightarrow> (js_error + dab_response) \<times> 'w" where
  "stop_then env appPackage w =
     (case adb_stop env appPackage w of
        (Inr u, w') \<Rightarrow> (with_fields (dabResponse 200 None) [(''state'', state_Stopped env)], w')
      | (Inl message, w') \<Rightarrow> (dabResponse 500 (Some message), w'))"

definition exitApp ::
    "('w, 'st) bridge_env \<Rightarrow> exit_req \<Rightarrow> 'w \<Rightarrow> (js_error + dab_response) \<times> 'w" where
  "exitApp env data w =
     (case exit_appId data of
        JStr a \<Rightarrow>
          (let appId' = toLowerCase env a in
           case lookup_package env appId' of
             None \<Rightarrow> (dabResponse 404 (Some (not_found_message appId')), w)
           | Some appPackage \<Rightarrow>
               (case adb_status env appPackage w of
                  (Inl message, w') \<Rightarrow> (dabResponse 500 (Some message), w')
                | (Inr appStatus, w') \<Rightarrow>
                    (if truthy (force data) then
                       (if appStatus \<noteq> Some (status_Stopped env) then stop_then env appPackage w'
                        else (with_fields (dabResponse 200 None) [(''state'', state_Stopped env)], w'))
                     else if appStatus = Some (status_Running env) then
                       (case adb_backgroundApp env appPackage w' of
                          (Inr u, w'') \<Rightarrow>
                            (with_fields (dabResponse 200 None) [(''state'', state_Background env)], w'')
                        | (Inl message, w'') \<Rightarrow> stop_then env appPackage w'')
                     else
                       (with_fields (dabResponse 200 None)
                          [(''state'', adbAppStatusToDabAppState env appStatus)], w'))))
      | _ \<Rightarrow> (dabResponse 400 (Some exit_appId_message), w))"

text \<open>
  \<^verbatim>\<open>
  override getAppState = async (data) => {
      if (typeof data.appId !== "string")
          return this.dabResponse(400, "'appId' must be set as the application id to query");
      try {
          data.appId = data.appId.toLowerCase();
          const appPackage = this.appMap[data.appId]?.package;
          if (!appPackage) return this.dabResponse(404, `Couldn't find data for app ${data.appId} in config file`);
          const appStatus = (await this.adb.status(appPackage)).state;
          return { ...this.dabResponse(), state: adbAppStatusToDabAppState(appStatus) };
      } catch (e) {
          return this.dabResponse(500, e.message);
      }
  };
  \<close>
  Here \<open>.state\<close> is read without \<open>?.\<close>: when \<open>adb.status\<close> returns
  \<open>undefined\<close> the read throws a \<open>TypeError\<close>, which the \<open>catch\<close> turns into
  a 500 response.
\<close>

definition getAppState ::
    "('w, 'st) bridge_env \<Rightarrow> state_req \<Rightarrow> 'w \<Rightarrow> (js_error + dab_response) \<times> 'w" where
  "getAppState env data w =
     (case state_appId data of
        JStr a \<Rightarrow>
          (let appId' = toLowerCase env a in
           case lookup_package env appId' of
             None \<Rightarrow> (dabResponse 404 (Some (not_found_message appId')), w)
           | Some appPackage \<Rightarrow>
               (case adb_status env appPackage w of
                  (Inl message, w') \<Rightarrow> (dabResponse 500 (Some message), w')
                | (Inr None, w') \<Rightarrow>
                    (dabResponse 500 (Some (cannot_read ''undefined'' ''state'')), w')
                | (Inr (Some st), w') \<Rightarrow>
                    (with_fields (dabResponse 200 None)
                       [(''state'', adbAppStatusToDabAppState env (Some st))], w')))
      | _ \<Rightarrow> (dabResponse 400 (Some state_appId_message), w))"

subsection \<open>An example bridge\<close>

text \<open>
  A bridge for the closed theorems: one configured application, a device that is the log
  of the adb commands run on it, and \<open>toLowerCase\<close> on ASCII letters.
\<close>

definition lower_char :: "char \<Rightarrow> char" where
  "lower_char c =
     (if 65 \<le> (of_char c :: nat) \<and> (of_char c :: nat) \<le> 90 then char_of (of_char c + 32 :: nat) else c)"

definition ascii_toLowerCase :: "string \<Rightarrow> string" where
  "ascii_toLowerCase s = map lower_char s"

datatype example_status = ExRunning | ExStopped

definition example_appMap :: "string \<Rightarrow> app_entry option" where
  "example_appMap a =
     (if a = ''youtube'' then
        Some (Impl \<lparr>package = Some ''com.google.android.youtube.tv'', friendlyName = Some ''YouTube'',
                    intent = Some [''-a'', ''android.intent.action.VIEW'', ''-d'', ''https://www.youtube.com/tv?''],
                    optionsPrefix = None\<rparr>)
      else None)"

definition example_bridge :: "(string list, example_status) bridge_env" where
  "example_bridge =
     \<lparr>toLowerCase = ascii_toLowerCase,
      ToString = (\<lambda>v. ''[object Object]''),
      appMap = example_appMap,
      adb_start = (\<lambda>i w. (Inr (), w @ [''start''])),
      adb_status = (\<lambda>p w. (Inr (Some ExRunning), w @ [''status''])),
      adb_stop = (\<lambda>p w. (Inr (), w @ [''stop''])),
      adb_backgroundApp = (\<lambda>p w. (Inr (), w @ [''background''])),
      status_Stopped = ExStopped,
      status_Running = ExRunning,
      state_Stopped = JStr ''STOPPED'',
      state_Background = JStr ''BACKGROUND'',
      adbAppStatusToDabAppState = (\<lambda>st. JStr ''FOREGROUND'')\<rparr>"

section \<open>Properties of the envelope builder\<close>

lemma dabResponse_returns:
  "(\<exists>r. dabResponse st err = Inr r) = (st div 100 = 2 \<or> (err \<noteq> None \<and> err \<noteq> Some []))"
  by (auto simp: dabResponse_def)

lemma div_100_is_2: "((st::int) div 100 = 2) = (200 \<le> st \<and> st \<le> 299)"
  by presburger

text \<open>
  C8. Every envelope the builder returns has its error text present exactly when its
  status lies outside 200..299. (When the status is outside that range and no error text
  is given, the builder throws and returns no envelope.)
\<close>

theorem dabResponse_error_iff_not_2xx:
  "dabResponse st err = Inr r \<Longrightarrow>
     (error r \<noteq> None) = (\<not> (200 \<le> status r \<and> status r \<le> 299))"
  by (auto simp: dabResponse_def div_100_is_2 split: if_splits)

theorem dabResponse_error_iff_not_2xx_witness:
  "dabResponse 404 (Some ''no such app'') = Inr \<lparr>status = 404, error = Some ''no such app'', extra = []\<rparr>
   \<and> (error \<lparr>status = 404, error = Some ''no such app'', extra = []\<rparr> \<noteq> None)
      = (\<not> (200 \<le> status \<lparr>status = 404, error = Some ''no such app'', extra = []\<rparr>
           \<and> status \<lparr>status = 404, error = Some ''no such app'', extra = []\<rparr> \<le> 299))"
proof -
  have h: "dabResponse 404 (Some ''no such app'')
           = Inr \<lparr>status = 404, error = Some ''no such app'', extra = []\<rparr>"
    by (simp add: dabResponse_def)
  show ?thesis
    using h dabResponse_error_iff_not_2xx [OF h] by simp
qed

section \<open>Properties of the telemetry session manager\<close>

lemma dabResponse_400: "e \<noteq> [] \<Longrightarrow> dabResponse 400 (Some e) = Inr \<lparr>status = 400, error = Some e, extra = []\<rparr>"
  by (simp add: dabResponse_def)

lemma dabResponse_200: "dabResponse 200 None = Inr \<lparr>status = 200, error = None, extra = []\<rparr>"
  by (simp add: dabResponse_def)

lemma frequency_message_nonempty: "frequency_message \<noteq> []"
  by (simp add: frequency_message_def)

lemma not_integer_three_halves: "\<not> isInteger (JNum (3 / 2))"
  by code_simp

lemma isInteger_is_number: "isInteger v \<Longrightarrow> is_number v"
  by (cases v) simp_all

lemma filter_sessions:
  "map fst (filter (\<lambda>(t', j). job_topic j = topic) (filter (\<lambda>(t', j). t' \<noteq> t) xs))
   = filter (\<lambda>t'. t' \<noteq> t) (map fst (filter (\<lambda>(t', j). job_topic j = topic) xs))"
  by (induction xs) auto

lemma sessions_on_clearInterval:
  "sessions_on topic (clearInterval t s) = filter (\<lambda>t'. t' \<noteq> t) (sessions_on topic s)"
  by (simp add: sessions_on_def clearInterval_def filter_sessions del: filter_filter)

lemma map_of_clearInterval: "map_of (intervals (clearInterval t s)) t = None"
  by (auto simp: clearInterval_def map_of_eq_None_iff)

lemma tick_cleared: "tick t (clearInterval t s) = []"
  by (simp add: tick_def map_of_clearInterval)

lemma telemetry_slot_own: "telemetry s k = Some t \<Longrightarrow> telemetry_slot s k = Handle t"
  by (simp add: telemetry_slot_def)

lemma telemetry_slot_absent:
  "telemetry s k = None \<Longrightarrow> k \<notin> set object_prototype_names \<Longrightarrow> telemetry_slot s k = Absent"
  by (simp add: telemetry_slot_def)

lemma telemetry_slot_inherited:
  "telemetry s k = None \<Longrightarrow> k \<in> set object_prototype_names \<Longrightarrow> telemetry_slot s k = Inherited"
  by (simp add: telemetry_slot_def)

lemma youtube_not_inherited: "''youtube'' \<notin> set object_prototype_names"
  by (simp add: object_prototype_names_def)

text \<open>
  Stopping. A key with no handle (and, for an application, not an inherited name) is
  answered with the 400 not-started response and the state is left as it was. A key with
  a handle is answered with 200; the recorded timer is cleared and the key deleted: the
  timer is no longer in the runtime's table, so its tick runs no job, and of the sessions
  publishing to any topic exactly that timer is gone.
\<close>

lemma stop_session:
  "(telemetry s ''device'' = None \<longrightarrow>
      stopDeviceTelemetryImpl s =
        (Inr \<lparr>status = 400, error = Some ''Device telemetry not started'', extra = []\<rparr>, s, []))
   \<and> (telemetry s a = None \<longrightarrow> a \<notin> set object_prototype_names \<longrightarrow>
      stopAppTelemetry \<lparr>stop_appId = JStr a\<rparr> s =
        (Inr \<lparr>status = 400, error = Some ''Device telemetry for ${data.app} not started'', extra = []\<rparr>, s, []))
   \<and> (telemetry s ''device'' = Some t \<longrightarrow>
      (\<exists>s'. stopDeviceTelemetryImpl s = (Inr \<lparr>status = 200, error = None, extra = []\<rparr>, s', [ClearInterval t])
          \<and> telemetry s' = (telemetry s)(''device'' := None)
          \<and> map_of (intervals s') t = None
          \<and> tick t s' = []
          \<and> (\<forall>topic. sessions_on topic s' = filter (\<lambda>t'. t' \<noteq> t) (sessions_on topic s))))
   \<and> (telemetry s a = Some t \<longrightarrow>
      (\<exists>s'. stopAppTelemetry \<lparr>stop_appId = JStr a\<rparr> s = (Inr \<lparr>status = 200, error = None, extra = []\<rparr>, s', [ClearInterval t])
          \<and> telemetry s' = (telemetry s)(a := None)
          \<and> map_of (intervals s') t = None
          \<and> tick t s' = []
          \<and> (\<forall>topic. sessions_on topic s' = filter (\<lambda>t'. t' \<noteq> t) (sessions_on topic s))))"
proof -
  have cleared: "map_of (intervals ((clearInterval t s)\<lparr>telemetry := f\<rparr>)) t = None" for f
    using map_of_clearInterval [of t s] by (simp add: clearInterval_def)
  have ticks: "tick t ((clearInterval t s)\<lparr>telemetry := f\<rparr>) = []" for f
    using cleared [of f] by (simp add: tick_def)
  have sess: "sessions_on topic ((clearInterval t s)\<lparr>telemetry := f\<rparr>)
              = filter (\<lambda>t'. t' \<noteq> t) (sessions_on topic s)" for f topic
    using sessions_on_clearInterval [of topic t s] by (simp add: sessions_on_def clearInterval_def)
  show ?thesis
    by (simp add: stopDeviceTelemetryImpl_def stopAppTelemetry_def dabResponse_400 dabResponse_200
        cleared ticks sess map_of_clearInterval telemetry_slot_own telemetry_slot_absent)
qed

lemma device_running_eq:
  "device_running =
     \<lparr>telemetry = (\<lambda>k. None)(''device'' \<mapsto> 0),
      intervals = [(0, \<lparr>job_topic = example_topic, job_source = CallProducer ''top'', job_period = JNum 1000\<rparr>)],
      next_timer = 1\<rparr>"
  by (simp add: device_running_def uninterrupted_def startDeviceTelemetryImpl_begin_def init_state_def
      publish_first_def install_def setInterval_def)

lemma both_running_eq:
  "both_running =
     \<lparr>telemetry = (\<lambda>k. None)(''device'' \<mapsto> 0, ''youtube'' \<mapsto> 1),
      intervals = [(0, \<lparr>job_topic = example_topic, job_source = CallProducer ''top'', job_period = JNum 1000\<rparr>),
                   (1, \<lparr>job_topic = example_topic @ ''/youtube'', job_source = PassCallback ''collect'',
                        job_period = JNum 500\<rparr>)],
      next_timer = 2\<rparr>"
  by (simp add: both_running_def device_running_eq uninterrupted_def startAppTelemetryImpl_begin_def
      publish_first_def install_def setInterval_def telemetry_slot_absent youtube_not_inherited)

lemma stop_session_example:
  "stopDeviceTelemetryImpl (init_state :: string dab_state) =
     (Inr \<lparr>status = 400, error = Some ''Device telemetry not started'', extra = []\<rparr>, init_state, [])
   \<and> stopAppTelemetry \<lparr>stop_appId = JStr ''youtube''\<rparr> (init_state :: string dab_state) =
     (Inr \<lparr>status = 400, error = Some ''Device telemetry for ${data.app} not started'', extra = []\<rparr>, init_state, [])
   \<and> fst (stopDeviceTelemetryImpl both_running) = Inr \<lparr>status = 200, error = None, extra = []\<rparr>
   \<and> snd (snd (stopDeviceTelemetryImpl both_running)) = [ClearInterval 0]
   \<and> tick 0 (fst (snd (stopDeviceTelemetryImpl both_running))) = []
   \<and> sessions_on example_topic (fst (snd (stopDeviceTelemetryImpl both_running))) = []
   \<and> fst (stopAppTelemetry \<lparr>stop_appId = JStr ''youtube''\<rparr> both_running) = Inr \<lparr>status = 200, error = None, extra = []\<rparr>
   \<and> tick 1 (fst (snd (stopAppTelemetry \<lparr>stop_appId = JStr ''youtube''\<rparr> both_running))) = []"
proof -
  have idle: "telemetry (init_state :: string dab_state) ''device'' = None"
             "telemetry (init_state :: string dab_state) ''youtube'' = None"
    by (simp_all add: init_state_def)
  have running: "telemetry both_running ''device'' = Some 0" "telemetry both_running ''youtube'' = Some 1"
    by (simp_all add: both_running_eq)
  have before: "sessions_on example_topic both_running = [0]"
    by (simp add: both_running_eq sessions_on_def example_topic_def)
  show ?thesis
    using stop_session [of "init_state :: string dab_state" "''youtube''" 0]
          stop_session [of both_running "''youtube''" 1]
          stop_session [of both_running "''nothing''" 0]
          idle running before youtube_not_inherited
    by auto
qed

text \<open>
  C7 (the code departs from the claim). For an application id that is the name of an
  inherited property, \<open>this.telemetry[data.appId]\<close> is truthy although no session was
  ever started under it: \<open>stopAppTelemetry\<close> takes the branch of a running session and
  answers 200 where the claim has the not-started error. (For the same reason a start
  request for such an id is answered with the already-started error.)
\<close>

theorem stop_inherited_name_answers_200:
  "stopAppTelemetry \<lparr>stop_appId = JStr ''constructor''\<rparr> (init_state :: string dab_state)
     = (Inr \<lparr>status = 200, error = None, extra = []\<rparr>, init_state, [])
   \<and> sessions_on (example_topic @ ''/constructor'') (init_state :: string dab_state) = []
   \<and> fst (startAppTelemetryImpl_begin example_topic
            \<lparr>appId = JStr ''constructor'', app_frequency = JNum 1000\<rparr> (Some ''collect'')
            (init_state :: string dab_state))
     = Finished (Inr \<lparr>status = 400,
                        error = Some ''App telemetry is already started for constructor, stop it first'',
                        extra = []\<rparr>)"
  by (simp add: stopAppTelemetry_def startAppTelemetryImpl_begin_def telemetry_slot_def
      object_prototype_names_def dabResponse_200 dabResponse_400 sessions_on_def init_state_def)

lemma install_init:
  "install first_call Fulfilled init_state =
     (Inr \<lparr>status = 200, error = None, extra = [(''frequency'', JNum 1000)]\<rparr>,
      device_running, [SetInterval 0 (JNum 1000)])"
  by (simp add: install_def first_call_def init_state_def setInterval_def with_fields_def spread_def
      dabResponse_200 device_running_eq)

lemma overlapped_eq:
  "overlapped =
     \<lparr>telemetry = (\<lambda>k. None)(''device'' \<mapsto> 1),
      intervals = [(0, \<lparr>job_topic = example_topic, job_source = CallProducer ''top'', job_period = JNum 1000\<rparr>),
                   (1, \<lparr>job_topic = example_topic, job_source = CallProducer ''top'', job_period = JNum 1000\<rparr>)],
      next_timer = 2\<rparr>"
  by (simp add: overlapped_def install_def first_call_def setInterval_def init_state_def)

text \<open>
  C4 (the code departs from the claim). The guard \<open>if (this.telemetry.device)\<close> is
  read before the \<open>await\<close>s and \<open>this.telemetry.device\<close> is written after them.
  Two start requests for the device that overlap (the second is dispatched while the first
  waits for its callback) both pass the guard and both answer 200; two interval timers then
  publish to the device's metrics topic, \<open>this.telemetry.device\<close> holds only the second,
  a stop request clears only that one, and the first keeps ticking with no key left to stop it.
\<close>

theorem overlapping_starts_two_sessions:
  "startDeviceTelemetryImpl_begin example_topic \<lparr>frequency = JNum 1000\<rparr> ''top'' init_state
     = (Suspended first_call, [Invoke ''top''])
   \<and> publish_first first_call Fulfilled = Inr [Publish example_topic (Produced ''top'')]
   \<and> fst (install first_call Fulfilled init_state)
     = Inr \<lparr>status = 200, error = None, extra = [(''frequency'', JNum 1000)]\<rparr>
   \<and> fst (install first_call Fulfilled (fst (snd (install first_call Fulfilled init_state))))
     = Inr \<lparr>status = 200, error = None, extra = [(''frequency'', JNum 1000)]\<rparr>
   \<and> sessions_on example_topic overlapped = [0, 1]
   \<and> telemetry overlapped ''device'' = Some 1
   \<and> fst (stopDeviceTelemetryImpl overlapped) = Inr \<lparr>status = 200, error = None, extra = []\<rparr>
   \<and> sessions_on example_topic (fst (snd (stopDeviceTelemetryImpl overlapped))) = [0]
   \<and> tick 0 (fst (snd (stopDeviceTelemetryImpl overlapped)))
     = [Invoke ''top'', Publish example_topic (Produced ''top'')]
   \<and> fst (stopDeviceTelemetryImpl (fst (snd (stopDeviceTelemetryImpl overlapped))))
     = Inr \<lparr>status = 400, error = Some ''Device telemetry not started'', extra = []\<rparr>"
proof -
  let ?ok = "Inr \<lparr>status = 200, error = None, extra = [(''frequency'', JNum 1000)]\<rparr> :: js_error + dab_response"
  let ?stopped = "\<lparr>telemetry = ((\<lambda>k. None)(''device'' \<mapsto> 1))(''device'' := None),
       intervals = [(0, \<lparr>job_topic = example_topic, job_source = CallProducer ''top'', job_period = JNum 1000\<rparr>)],
       next_timer = 2\<rparr> :: string dab_state"
  have c1: "startDeviceTelemetryImpl_begin example_topic \<lparr>frequency = JNum 1000\<rparr> ''top'' init_state
     = (Suspended first_call, [Invoke ''top''])"
    by (simp add: startDeviceTelemetryImpl_begin_def init_state_def first_call_def)
  have c2: "publish_first first_call Fulfilled = Inr [Publish example_topic (Produced ''top'')]"
    by (simp add: publish_first_def first_call_def)
  have c3: "fst (install first_call Fulfilled init_state) = ?ok"
    by (simp add: install_init)
  have c4: "fst (install first_call Fulfilled (fst (snd (install first_call Fulfilled init_state)))) = ?ok"
    by (simp add: install_def first_call_def setInterval_def with_fields_def spread_def dabResponse_200)
  have c5: "sessions_on example_topic overlapped = [0, 1]"
    by (simp add: overlapped_eq sessions_on_def)
  have c6: "telemetry overlapped ''device'' = Some 1"
    by (simp add: overlapped_eq)
  have stop: "stopDeviceTelemetryImpl overlapped =
     (Inr \<lparr>status = 200, error = None, extra = []\<rparr>, ?stopped, [ClearInterval 1])"
    by (simp add: stopDeviceTelemetryImpl_def overlapped_eq clearInterval_def dabResponse_200)
  have c7: "fst (stopDeviceTelemetryImpl overlapped) = Inr \<lparr>status = 200, error = None, extra = []\<rparr>"
    by (simp add: stop)
  have c8: "sessions_on example_topic (fst (snd (stopDeviceTelemetryImpl overlapped))) = [0]"
    by (simp add: stop sessions_on_def)
  have c9: "tick 0 (fst (snd (stopDeviceTelemetryImpl overlapped)))
     = [Invoke ''top'', Publish example_topic (Produced ''top'')]"
    by (simp add: stop tick_def job_actions_def)
  have c10: "fst (stopDeviceTelemetryImpl (fst (snd (stopDeviceTelemetryImpl overlapped))))
     = Inr \<lparr>status = 400, error = Some ''Device telemetry not started'', extra = []\<rparr>"
    by (simp only: stop fst_conv snd_conv) (simp add: stopDeviceTelemetryImpl_def dabResponse_400)
  from c1 c2 c3 c4 c5 c6 c7 c8 c9 c10 show ?thesis
    by blast
qed

text \<open>
  What does hold: a start request for a key whose session is already recorded is answered
  with the already-started response, and nothing is published, scheduled or changed.
\<close>

lemma start_on_running_key:
  "telemetry s ''device'' = Some t \<Longrightarrow> isInteger (frequency d) \<Longrightarrow>
     uninterrupted (startDeviceTelemetryImpl_begin mt d cb s) s =
       (Inr \<lparr>status = 400, error = Some ''Device telemetry is already started, stop it first'', extra = []\<rparr>, s, [])"
  by (simp add: startDeviceTelemetryImpl_begin_def uninterrupted_def dabResponse_400)

lemma start_app_on_running_key:
  "telemetry s a = Some t \<Longrightarrow> isInteger f \<Longrightarrow>
     uninterrupted (startAppTelemetryImpl_begin mt \<lparr>appId = JStr a, app_frequency = f\<rparr> (Some p) s) s =
       (Inr \<lparr>status = 400, error = Some (''App telemetry is already started for '' @ a @ '', stop it first''),
             extra = []\<rparr>, s, [])"
  by (simp add: startAppTelemetryImpl_begin_def uninterrupted_def dabResponse_400 isInteger_is_number
      telemetry_slot_own)

text \<open>
  The device path: the callback is called once at once, its value is published, and the
  interval is set with the request's frequency.
\<close>

lemma start_device_uninterrupted:
  "isInteger (frequency d) \<Longrightarrow> telemetry s ''device'' = None \<Longrightarrow>
     uninterrupted (startDeviceTelemetryImpl_begin mt d cb s) s =
       (Inr \<lparr>status = 200, error = None, extra = [(''frequency'', frequency d)]\<rparr>,
        s\<lparr>intervals := intervals s @ [(next_timer s, \<lparr>job_topic = mt, job_source = CallProducer cb,
                                                       job_period = frequency d\<rparr>)],
          next_timer := Suc (next_timer s),
          telemetry := (telemetry s)(''device'' \<mapsto> next_timer s)\<rparr>,
        [Invoke cb, Publish mt (Produced cb), SetInterval (next_timer s) (frequency d)])"
  by (simp add: startDeviceTelemetryImpl_begin_def uninterrupted_def publish_first_def install_def
      setInterval_def with_fields_def spread_def dabResponse_200)

lemma app_start_never_invokes:
  "Invoke q \<notin> set (snd (snd (uninterrupted (startAppTelemetryImpl_begin mt d cb s) s)))"
  by (auto simp: startAppTelemetryImpl_begin_def uninterrupted_def publish_first_def install_def
      setInterval_def split: option.splits jsval.splits)

text \<open>
  C5 (the code departs from the claim). \<open>startAppTelemetryImpl\<close> passes
  \<open>await cb\<close> to both of its publishes where \<open>startDeviceTelemetryImpl\<close> passes
  \<open>await cb()\<close>: a successful application start publishes the callback function
  itself, at once and on every tick, and never calls it.
\<close>

theorem app_telemetry_publishes_callback_itself:
  "fst app_start_run = Inr \<lparr>status = 200, error = None, extra = [(''frequency'', JNum 500)]\<rparr>
   \<and> snd (snd app_start_run)
     = [Publish (example_topic @ ''/youtube'') (TheCallback ''collect''), SetInterval 0 (JNum 500)]
   \<and> tick 0 (fst (snd app_start_run)) = [Publish (example_topic @ ''/youtube'') (TheCallback ''collect'')]
   \<and> Invoke ''collect'' \<notin> set (snd (snd app_start_run) @ tick 0 (fst (snd app_start_run)))"
  by (simp add: app_start_run_def uninterrupted_def startAppTelemetryImpl_begin_def init_state_def
      publish_first_def install_def setInterval_def with_fields_def spread_def dabResponse_200
      tick_def job_actions_def telemetry_slot_def object_prototype_names_def)

text \<open>
  C6, as stated, fails: the check is \<open>Number.isInteger\<close> alone. A frequency of 0
  starts the device session, a frequency of -5 an application session, and the adb
  bridge's \<open>startDeviceTelemetry\<close> raises 0 to the platform minimum and starts.
\<close>

theorem zero_frequency_starts_session:
  "fst (uninterrupted (startDeviceTelemetryImpl_begin example_topic \<lparr>frequency = JNum 0\<rparr> ''top'' init_state) init_state)
     = Inr \<lparr>status = 200, error = None, extra = [(''frequency'', JNum 0)]\<rparr>
   \<and> sessions_on example_topic
       (fst (snd (uninterrupted (startDeviceTelemetryImpl_begin example_topic \<lparr>frequency = JNum 0\<rparr> ''top'' init_state) init_state)))
     = [0]
   \<and> fst (uninterrupted (startAppTelemetryImpl_begin example_topic
            \<lparr>appId = JStr ''youtube'', app_frequency = JNum (- 5)\<rparr> (Some ''collect'') init_state) init_state)
     = Inr \<lparr>status = 200, error = None, extra = [(''frequency'', JNum (- 5))]\<rparr>
   \<and> startDeviceTelemetry example_topic 1000 ''top'' \<lparr>frequency = JNum 0\<rparr> init_state
     = (Suspended \<lparr>call_key = ''device'', call_topic = example_topic,
                    call_source = CallProducer ''top'', call_frequency = JNum 1000\<rparr>,
        [Invoke ''top''])"
  by (simp add: uninterrupted_def startDeviceTelemetryImpl_begin_def startAppTelemetryImpl_begin_def
      startDeviceTelemetry_def init_state_def publish_first_def install_def setInterval_def
      with_fields_def spread_def dabResponse_200 sessions_on_def
      telemetry_slot_def object_prototype_names_def)

text \<open>
  C6, amended. A frequency that is not an integer number (missing, of another type, or
  with a fractional part) is answered with status 400 by \<open>startDeviceTelemetryImpl\<close>,
  by the adb bridge's \<open>startDeviceTelemetry\<close> and by \<open>startAppTelemetryImpl\<close>;
  nothing is published, no timer is set and the state is unchanged.
\<close>

theorem non_integer_frequency_rejected:
  "\<not> isInteger f \<Longrightarrow>
     uninterrupted (startDeviceTelemetryImpl_begin mt \<lparr>frequency = f\<rparr> cb s) s
       = (Inr \<lparr>status = 400, error = Some frequency_message, extra = []\<rparr>, s, [])
     \<and> uninterrupted (startDeviceTelemetry mt platformMinFrequency cb \<lparr>frequency = f\<rparr> s) s
       = (Inr \<lparr>status = 400, error = Some frequency_message, extra = []\<rparr>, s, [])
     \<and> uninterrupted (startAppTelemetryImpl_begin mt \<lparr>appId = JStr a, app_frequency = f\<rparr> (Some p) s) s
       = (Inr \<lparr>status = 400, error = Some frequency_message, extra = []\<rparr>, s, [])
     \<and> (\<exists>msg. uninterrupted (startAppTelemetryImpl_begin mt \<lparr>appId = x, app_frequency = f\<rparr> cb' s) s
       = (Inr \<lparr>status = 400, error = Some msg, extra = []\<rparr>, s, []))"
  by (auto simp: startDeviceTelemetryImpl_begin_def startDeviceTelemetry_def startAppTelemetryImpl_begin_def
      uninterrupted_def dabResponse_400 frequency_message_nonempty app_start_message_def
      split: jsval.splits option.splits)

theorem non_integer_frequency_rejected_witness:
  "\<not> isInteger (JNum (3 / 2))
   \<and> uninterrupted (startDeviceTelemetryImpl_begin example_topic \<lparr>frequency = JNum (3 / 2)\<rparr> ''top'' init_state) init_state
       = (Inr \<lparr>status = 400, error = Some frequency_message, extra = []\<rparr>, init_state, [])
   \<and> uninterrupted (startDeviceTelemetry example_topic 1000 ''top'' \<lparr>frequency = JStr ''fast''\<rparr> init_state) init_state
       = (Inr \<lparr>status = 400, error = Some frequency_message, extra = []\<rparr>, init_state, [])
   \<and> uninterrupted (startAppTelemetryImpl_begin example_topic \<lparr>appId = JStr ''youtube'', app_frequency = JUndefined\<rparr>
          (Some ''collect'') init_state) init_state
       = (Inr \<lparr>status = 400, error = Some frequency_message, extra = []\<rparr>, init_state, [])"
  using non_integer_frequency_rejected [of "JNum (3 / 2)" example_topic "''top''" init_state 1000 "''youtube''" "''collect''" JNull None]
        non_integer_frequency_rejected [of "JStr ''fast''" example_topic "''top''" init_state 1000 "''youtube''" "''collect''" JNull None]
        non_integer_frequency_rejected [of JUndefined example_topic "''top''" init_state 1000 "''youtube''" "''collect''" JNull None]
        not_integer_three_halves
  by simp

text \<open>
  Calls that do not overlap. \<open>recorded\<close> holds initially and every start and stop
  request that runs to its end keeps it.
\<close>

lemma key_of_device: "key_of mt mt = ''device''"
  by (simp add: key_of_def)

lemma key_of_app: "key_of mt (mt @ CHR ''/'' # a) = a"
  by (simp add: key_of_def)

lemma recorded_init: "recorded mt init_state"
  by (simp add: recorded_def init_state_def)

lemma recorded_install:
  assumes "recorded mt s" and "telemetry s k = None" and "key_of mt topic = k"
  shows "recorded mt
           (s\<lparr>intervals := intervals s @ [(next_timer s, \<lparr>job_topic = topic, job_source = src, job_period = f\<rparr>)],
              next_timer := Suc (next_timer s),
              telemetry := (telemetry s)(k \<mapsto> next_timer s)\<rparr>)"
  using assms by (fastforce simp: recorded_def)

lemma recorded_clear:
  assumes "recorded mt s" and "telemetry s k = Some t"
  shows "recorded mt ((clearInterval t s)\<lparr>telemetry := (telemetry s)(k := None)\<rparr>)"
  using assms by (fastforce simp: recorded_def clearInterval_def distinct_map_filter)

lemma install_state:
  "fst (snd (install c Fulfilled s)) =
     s\<lparr>intervals := intervals s @ [(next_timer s, \<lparr>job_topic = call_topic c, job_source = call_source c,
                                                   job_period = call_frequency c\<rparr>)],
       next_timer := Suc (next_timer s),
       telemetry := (telemetry s)(call_key c \<mapsto> next_timer s)\<rparr>"
  by (simp add: install_def setInterval_def)

lemma recorded_perform: "recorded mt s \<Longrightarrow> recorded mt (perform mt c s)"
proof (cases c)
  case (StartDevice d p)
  assume r: "recorded mt s"
  show ?thesis
  proof (cases "isInteger (frequency d) \<and> telemetry s ''device'' = None")
    case True
    then show ?thesis
      using r StartDevice recorded_install [OF r, of "''device''" mt "CallProducer p" "frequency d"]
      by (simp add: uninterrupted_def startDeviceTelemetryImpl_begin_def publish_first_def install_state
          key_of_device case_prod_unfold)
  next
    case False
    then show ?thesis
      using r StartDevice by (auto simp: uninterrupted_def startDeviceTelemetryImpl_begin_def)
  qed
next
  case (StartApp d cb)
  assume r: "recorded mt s"
  show ?thesis
  proof (cases "\<exists>p a. cb = Some p \<and> appId d = JStr a \<and> is_number (app_frequency d)
                  \<and> isInteger (app_frequency d) \<and> telemetry_slot s a = Absent")
    case True
    then obtain p a where h: "cb = Some p" "appId d = JStr a" "is_number (app_frequency d)"
        "isInteger (app_frequency d)" "telemetry_slot s a = Absent"
      by blast
    from h(5) have none: "telemetry s a = None"
      by (simp add: telemetry_slot_def split: option.splits if_splits)
    show ?thesis
      using r StartApp h recorded_install [OF r none key_of_app, of "PassCallback p" "app_frequency d"]
      by (simp add: uninterrupted_def startAppTelemetryImpl_begin_def publish_first_def install_state
          key_of_app case_prod_unfold)
  next
    case False
    then show ?thesis
      using r StartApp
      by (auto simp: uninterrupted_def startAppTelemetryImpl_begin_def split: option.splits jsval.splits)
  qed
next
  case StopDevice
  assume r: "recorded mt s"
  show ?thesis
    using r StopDevice recorded_clear [OF r, of "''device''"]
    by (auto simp: stopDeviceTelemetryImpl_def split: option.splits)
next
  case (StopApp d)
  assume r: "recorded mt s"
  show ?thesis
    using r StopApp recorded_clear [OF r]
    by (auto simp: stopAppTelemetry_def telemetry_slot_def split: jsval.splits option.splits slot.splits if_splits)
qed

lemma recorded_perform_all: "recorded mt s \<Longrightarrow> recorded mt (perform_all mt cs s)"
  by (induction cs arbitrary: s) (simp_all add: recorded_perform)

lemma at_most_one:
  "distinct (map fst xs) \<Longrightarrow> \<forall>(t, j) \<in> set xs. P j \<longrightarrow> t = c \<Longrightarrow>
     length (filter (\<lambda>(t, j). P j) xs) \<le> 1"
proof (induction xs)
  case Nil
  then show ?case by simp
next
  case (Cons x xs)
  obtain t j where x: "x = (t, j)" by (cases x)
  show ?case
  proof (cases "P j")
    case True
    with Cons.prems x have "t = c" by simp
    with Cons.prems x have "\<forall>(t', j') \<in> set xs. \<not> P j'" by force
    then have "filter (\<lambda>(t, j). P j) xs = []" by (auto simp: filter_empty_conv)
    with x True show ?thesis by simp
  next
    case False
    with Cons x show ?thesis by simp
  qed
qed

lemma recorded_one_session: "recorded mt s \<Longrightarrow> length (sessions_on topic s) \<le> 1"
proof -
  assume r: "recorded mt s"
  show ?thesis
  proof (cases "telemetry s (key_of mt topic)")
    case None
    with r have "filter (\<lambda>(t, j). job_topic j = topic) (intervals s) = []"
      by (auto simp: recorded_def filter_empty_conv)
    then show ?thesis by (simp add: sessions_on_def)
  next
    case (Some c)
    with r have "\<forall>(t, j) \<in> set (intervals s). job_topic j = topic \<longrightarrow> t = c"
      by (auto simp: recorded_def)
    with r show ?thesis
      using at_most_one [of "intervals s" "\<lambda>j. job_topic j = topic" c]
      by (simp add: recorded_def sessions_on_def)
  qed
qed

text \<open>
  When calls do not overlap the guard does its work: whatever the sequence of start and
  stop requests, at most one timer publishes to any one topic.
\<close>

theorem one_session_when_calls_do_not_overlap:
  "length (sessions_on topic (perform_all mt cs init_state)) \<le> 1"
  by (rule recorded_one_session [OF recorded_perform_all [OF recorded_init]])

section \<open>Properties of the MQTT client\<close>

lemma parse_failure_fields:
  "get_prop (parse_failure raw pkt) ''status'' = Inr (JNum 500)
   \<and> get_prop (parse_failure raw pkt) ''error'' = Inr (JStr ''failed to parse msg'')
   \<and> get_prop (parse_failure raw pkt) ''msg'' = Inr (JStr raw)
   \<and> get_prop (parse_failure raw pkt) ''packet'' = Inr (JPacket pkt)"
  by (simp add: parse_failure_def)

text \<open>
  C3, as stated, fails for the empty payload: \<open>handleMessage\<close> parses only when
  \<open>msg.length\<close> is not zero, and an empty payload reaches the listeners as the empty
  object, not as the parse-failure payload.
\<close>

theorem empty_payload_is_empty_object:
  "fst (snd (handleMessage example_env ''_response/applications/list/42'' [] example_packet)) = JObj []
   \<and> fst (snd (handleMessage example_env ''_response/applications/list/42'' [] example_packet))
       \<noteq> parse_failure [] example_packet"
  by (simp add: handleMessage_def parse_failure_def)

text \<open>
  C3, amended. An empty payload is delivered as \<open>{}\<close>. A non-empty payload that
  \<open>JSON.parse\<close> rejects is delivered as the parse-failure payload: status 500, error
  \<open>failed to parse msg\<close>, the raw text under \<open>msg\<close> and the packet under
  \<open>packet\<close>. A payload that parses is delivered as parsed. In every case
  \<open>handleMessage\<close> emits and does not throw.
\<close>

theorem handleMessage_payloads:
  "handleMessage env topic [] pkt = (topic, JObj [], pkt)
   \<and> (msg \<noteq> [] \<longrightarrow> JSON_parse env msg = None \<longrightarrow>
        handleMessage env topic msg pkt = (topic, parse_failure msg pkt, pkt)
        \<and> get_prop (parse_failure msg pkt) ''status'' = Inr (JNum 500)
        \<and> get_prop (parse_failure msg pkt) ''error'' = Inr (JStr ''failed to parse msg'')
        \<and> get_prop (parse_failure msg pkt) ''msg'' = Inr (JStr msg)
        \<and> get_prop (parse_failure msg pkt) ''packet'' = Inr (JPacket pkt))
   \<and> (msg \<noteq> [] \<longrightarrow> JSON_parse env msg = Some v \<longrightarrow>
        handleMessage env topic msg pkt = (topic, v, pkt))"
  by (simp add: handleMessage_def parse_failure_fields)

theorem handleMessage_payloads_witness:
  "''not json'' \<noteq> [] \<and> JSON_parse example_env ''not json'' = None
   \<and> handleMessage example_env ''t'' ''not json'' example_packet
       = (''t'', parse_failure ''not json'' example_packet, example_packet)
   \<and> JSON_parse example_env ''{}'' = Some (JObj [])
   \<and> handleMessage example_env ''t'' ''{}'' example_packet = (''t'', JObj [], example_packet)
   \<and> handleMessage example_env ''t'' [] example_packet = (''t'', JObj [], example_packet)"
proof -
  have p1: "JSON_parse example_env ''not json'' = None"
    by (simp add: example_env_def parse_literals_def)
  have p2: "JSON_parse example_env ''{}'' = Some (JObj [])"
    by (simp add: example_env_def parse_literals_def)
  show ?thesis
    using handleMessage_payloads [of example_env "''t''" example_packet "''not json''" "JObj []"]
          handleMessage_payloads [of example_env "''t''" example_packet "''{}''" "JObj []"]
          p1 p2
    by simp
qed

subsection \<open>request\<close>

lemma settle_pending: "settled s = None \<Longrightarrow> settled (settle out s) = Some out"
  by (simp add: settle_def)

lemma settle_settled: "settled s = Some out \<Longrightarrow> settle out' s = s"
  by (simp add: settle_def)

lemma settled_then_end: "settled (fst (then_end env cfg s)) = settled s"
  by (simp add: then_end_def end_subscription_def split: promise_state.splits)

lemma settled_run_ends: "settled (fst (run_ends env cfg n s)) = settled s"
  by (induction n arbitrary: s) (simp_all add: end_subscription_def case_prod_unfold)

lemma settled_once:
  assumes "settled s = Some out"
  shows "settled (fst (step env cfg e s)) = Some out"
proof (cases e)
  case SubscribeAcked
  with assms show ?thesis by (simp add: on_subscribed_def settled_run_ends)
next
  case (SubscribeFailed x)
  with assms show ?thesis by simp
next
  case (Message msg)
  with assms show ?thesis
    by (simp add: on_response_def case_prod_unfold settled_then_end settle_def split: sum.splits)
next
  case TimerFired
  with assms show ?thesis by (simp add: on_timeout_def settled_then_end settle_def)
next
  case PublishDone
  with assms show ?thesis by simp
next
  case (PublishFailed err)
  with assms show ?thesis
    by (simp add: on_publish_error_def case_prod_unfold settled_then_end settle_def)
next
  case (ListenersChanged n)
  with assms show ?thesis by simp
qed

lemma settled_run:
  "settled s = Some out \<Longrightarrow> settled (fst (run env cfg es s)) = Some out"
  by (induction es arbitrary: s) (simp_all add: case_prod_unfold settled_once)


lemma on_response_settles:
  assumes "settled s = None" and "get_prop msg ''status'' = Inr st"
  shows "settled (fst (on_response env cfg msg s))
         = Some (if js_gt env st 299 then Inl (Thrown msg) else Inr msg)"
  using assms
  by (simp add: on_response_def case_prod_unfold settled_then_end settle_def)

lemma js_gt_undefined: "\<not> js_gt env JUndefined r"
  by (simp add: js_gt_def)

lemma js_gt_num: "js_gt env (JNum n) r = (r < n)"
  by (simp add: js_gt_def)

lemma start_state:
  "fst (request_start env cfg) =
     \<lparr>settled = None, timer_armed = True, listening = True, subscription = Pending,
      queued_ends = 0, publishing = Pending, other_listeners = req_other_listeners cfg\<rparr>"
  by (simp add: request_start_def)





lemma example_names:
  "timeout_of example_cfg = 5000"
  "convertPattern example_env (responseTopic example_cfg) = ''_response/applications/list/42''"
  "responseTopic example_cfg = ''_response/applications/list/42''"
  "requestTopic example_cfg = ''applications/list/42''"
  "req_payload example_cfg = JObj []"
  "req_topic example_cfg = ''applications/list''"
  "req_other_listeners example_cfg = 0"
  "convertPattern example_env ''_response/applications/list/42'' = ''_response/applications/list/42''"
  by (simp_all add: timeout_of_def example_cfg_def example_env_def responseTopic_def requestTopic_def
      example_convertPattern_def)

lemma after_publish_failure_eq:
  "after_publish_failure =
     \<lparr>settled = Some (Inl (Error ''client disconnecting'')), timer_armed = True, listening = False,
      subscription = IsFulfilled, queued_ends = 0, publishing = IsRejected, other_listeners = 0\<rparr>"
  by (simp add: after_publish_failure_def start_state on_subscribed_def on_publish_error_def
      then_end_def end_subscription_def settle_def example_names)





text \<open>
  On a client that holds another listener matching the response event, the end of the
  call's subscription removes the call's listener and leaves the topic subscribed.
\<close>

lemma shared_topic_stays_subscribed:
  "snd (run example_env shared_cfg [SubscribeAcked, TimerFired] (fst (request_start example_env shared_cfg)))
     = [RemoveListener ''_response/applications/list/42'']"
  by (simp add: start_state on_subscribed_def on_timeout_def then_end_def end_subscription_def settle_def
      shared_cfg_def example_env_def responseTopic_def requestTopic_def example_convertPattern_def)

text \<open>
  The four terminal transitions, from a state in which the call is still pending: what
  each does to the promise and to the timer, and that each schedules the subscription's
  end (which runs at once when the SUBACK has arrived, and unsubscribes when no other
  listener matches the response event).
\<close>

lemma terminal_transitions:
  assumes "settled s = None" and "listening s" and "timer_armed s" and "publishing s = Pending"
      and "subscription s = IsFulfilled" and "get_prop msg ''status'' = Inr (JNum n)"
  shows "200 \<le> n \<Longrightarrow> n \<le> 299 \<Longrightarrow>
           step env cfg (Message msg) s =
             (s\<lparr>settled := Some (Inr msg), timer_armed := False, listening := False\<rparr>,
              ClearTimeout # RemoveListener (convertPattern env (responseTopic cfg)) #
                (if other_listeners s = 0 then [Unsubscribe (responseTopic cfg)] else []))"
    and "300 \<le> n \<Longrightarrow>
           step env cfg (Message msg) s =
             (s\<lparr>settled := Some (Inl (Thrown msg)), timer_armed := False, listening := False\<rparr>,
              ClearTimeout # RemoveListener (convertPattern env (responseTopic cfg)) #
                (if other_listeners s = 0 then [Unsubscribe (responseTopic cfg)] else []))"
    and "step env cfg TimerFired s =
             (s\<lparr>settled := Some (Inl (TimeoutError (req_topic cfg) (timeout_of cfg))),
                timer_armed := False, listening := False\<rparr>,
              RemoveListener (convertPattern env (responseTopic cfg)) #
                (if other_listeners s = 0 then [Unsubscribe (responseTopic cfg)] else []))"
    and "step env cfg (PublishFailed err) s =
             (s\<lparr>settled := Some (Inl err), publishing := IsRejected, listening := False\<rparr>,
              RemoveListener (convertPattern env (responseTopic cfg)) #
                (if other_listeners s = 0 then [Unsubscribe (responseTopic cfg)] else []))"
  using assms
  by (simp_all add: on_response_def on_timeout_def on_publish_error_def then_end_def
      end_subscription_def settle_def js_gt_num)

text \<open>
  C1 (the code departs from the claim). The \<open>catch\<close> of the publish ends the
  subscription and rejects, but does not call \<open>clearTimeout\<close> as the response
  listener does. After a failed publish the timer is still armed; when it fires later, the
  promise is already settled and keeps its outcome, but the timer's function runs
  \<open>s.end()\<close> once more: a second \<open>removeListener\<close> and a second UNSUBSCRIBE.
\<close>

theorem publish_failure_leaves_timer_armed:
  "settled after_publish_failure = Some (Inl (Error ''client disconnecting''))
   \<and> timer_armed after_publish_failure
   \<and> snd (run example_env example_cfg [SubscribeAcked, PublishFailed (Error ''client disconnecting'')]
            (fst (request_start example_env example_cfg)))
       = [RemoveListener ''_response/applications/list/42'', Unsubscribe ''_response/applications/list/42'']
   \<and> step example_env example_cfg TimerFired after_publish_failure
       = (after_publish_failure\<lparr>timer_armed := False\<rparr>,
          [RemoveListener ''_response/applications/list/42'', Unsubscribe ''_response/applications/list/42''])"
proof -
  have c1: "settled after_publish_failure = Some (Inl (Error ''client disconnecting''))"
    and c2: "timer_armed after_publish_failure"
    by (simp_all add: after_publish_failure_eq)
  have c3: "snd (run example_env example_cfg [SubscribeAcked, PublishFailed (Error ''client disconnecting'')]
            (fst (request_start example_env example_cfg)))
       = [RemoveListener ''_response/applications/list/42'', Unsubscribe ''_response/applications/list/42'']"
    by (simp add: start_state on_subscribed_def on_publish_error_def then_end_def end_subscription_def
        settle_def example_names)
  have c4: "step example_env example_cfg TimerFired after_publish_failure
       = (after_publish_failure\<lparr>timer_armed := False\<rparr>,
          [RemoveListener ''_response/applications/list/42'', Unsubscribe ''_response/applications/list/42''])"
    by (simp add: after_publish_failure_eq on_timeout_def then_end_def end_subscription_def settle_def
        example_names)
  from c1 c2 c3 c4 show ?thesis by blast
qed

text \<open>A response whose JSON is \<open>null\<close>: the listener clears the timer and then throws.\<close>

lemma null_response_clears_timer_only:
  "step env cfg (Message JNull) (fst (request_start env cfg))
     = ((fst (request_start env cfg))\<lparr>timer_armed := False\<rparr>, [ClearTimeout])"
  by (simp add: start_state on_response_def)

text \<open>
  From the wire to the promise: an empty response payload resolves the call with
  \<open>{}\<close>, and a payload that does not parse rejects it with the parse-failure payload,
  whose status is 500.
\<close>

lemma empty_payload_resolves:
  "settled (fst (inbound env cfg [] pkt (fst (request_start env cfg)))) = Some (Inr (JObj []))"
  by (simp add: inbound_def handleMessage_def start_state on_response_settles js_gt_undefined)

lemma unparsable_payload_rejects:
  assumes "raw \<noteq> []" and "JSON_parse env raw = None"
  shows "settled (fst (inbound env cfg raw pkt (fst (request_start env cfg))))
         = Some (Inl (Thrown (parse_failure raw pkt)))"
  using assms
  by (simp add: inbound_def handleMessage_def start_state on_response_settles parse_failure_fields
      js_gt_num)

section \<open>Properties of the application handlers\<close>

lemma lower_youtube: "ascii_toLowerCase ''YouTube'' = ''youtube''"
  by code_simp

lemma lower_youtube_again: "ascii_toLowerCase ''youtube'' = ''youtube''"
  by code_simp

lemma lower_netflix: "ascii_toLowerCase ''Netflix'' = ''netflix''"
  by code_simp

lemma lower_netflix_again: "ascii_toLowerCase ''netflix'' = ''netflix''"
  by code_simp

lemma not_found_message_nonempty: "not_found_message a \<noteq> []"
  by (simp add: not_found_message_def)

lemma dabResponse_404:
  "dabResponse 404 (Some (not_found_message a))
     = Inr \<lparr>status = 404, error = Some (not_found_message a), extra = []\<rparr>"
  by (simp add: dabResponse_def not_found_message_nonempty)

lemma with_state:
  "with_fields (dabResponse 200 None) [(''state'', v)]
     = Inr \<lparr>status = 200, error = None, extra = [(''state'', v)]\<rparr>"
  by (simp add: with_fields_def spread_def dabResponse_200)

text \<open>
  A request and the same request with \<open>appId\<close> already lowercased are handled alike,
  when lowercasing a lowercased text changes nothing.
\<close>

lemma handlers_ignore_case:
  assumes "toLowerCase env (toLowerCase env a) = toLowerCase env a"
  shows "launch_appId l = JStr a \<Longrightarrow>
           launchApp env l w = launchApp env (l\<lparr>launch_appId := JStr (toLowerCase env a)\<rparr>) w"
    and "exit_appId x = JStr a \<Longrightarrow>
           exitApp env x w = exitApp env (x\<lparr>exit_appId := JStr (toLowerCase env a)\<rparr>) w"
    and "state_appId g = JStr a \<Longrightarrow>
           getAppState env g w = getAppState env (g\<lparr>state_appId := JStr (toLowerCase env a)\<rparr>) w"
  using assms
  by (simp_all add: launchApp_def exitApp_def getAppState_def Let_def
      cong: option.case_cong prod.case_cong sum.case_cong if_cong)

text \<open>What each handler does with the entry it finds under the lowercased id.\<close>

lemma launchApp_lookup:
  assumes "launch_appId l = JStr a"
  shows "appMap env (toLowerCase env a) = None \<Longrightarrow>
           launchApp env l w =
             (Inr \<lparr>status = 404, error = Some (not_found_message (toLowerCase env a)), extra = []\<rparr>, w)"
    and "appMap env (toLowerCase env a) = Some entry \<Longrightarrow> entry_intent entry = None \<Longrightarrow>
           launchApp env l w =
             (Inr \<lparr>status = 404, error = Some (not_found_message (toLowerCase env a)), extra = []\<rparr>, w)"
    and "appMap env (toLowerCase env a) = Some entry \<Longrightarrow> entry_intent entry = Some base \<Longrightarrow>
         adb_start env (launch_intent env base (entry_optionsPrefix entry) (parameters l)) w = (Inr u, w') \<Longrightarrow>
           launchApp env l w = (Inr \<lparr>status = 200, error = None, extra = []\<rparr>, w')"
  using assms by (simp_all add: launchApp_def dabResponse_404 dabResponse_200)

lemma exitApp_lookup:
  assumes "exit_appId x = JStr a"
  shows "lookup_package env (toLowerCase env a) = None \<Longrightarrow>
           exitApp env x w =
             (Inr \<lparr>status = 404, error = Some (not_found_message (toLowerCase env a)), extra = []\<rparr>, w)"
    and "lookup_package env (toLowerCase env a) = Some p \<Longrightarrow>
         adb_status env p w = (Inr (Some (status_Running env)), w') \<Longrightarrow> \<not> truthy (force x) \<Longrightarrow>
         adb_backgroundApp env p w' = (Inr u, w'') \<Longrightarrow>
           exitApp env x w =
             (Inr \<lparr>status = 200, error = None, extra = [(''state'', state_Background env)]\<rparr>, w'')"
    and "lookup_package env (toLowerCase env a) = Some p \<Longrightarrow>
         adb_status env p w = (Inr appStatus, w') \<Longrightarrow> truthy (force x) \<Longrightarrow>
         appStatus \<noteq> Some (status_Stopped env) \<Longrightarrow>
           exitApp env x w = stop_then env p w'"
  using assms by (simp_all add: exitApp_def dabResponse_404 with_state)

lemma getAppState_lookup:
  assumes "state_appId g = JStr a"
  shows "lookup_package env (toLowerCase env a) = None \<Longrightarrow>
           getAppState env g w =
             (Inr \<lparr>status = 404, error = Some (not_found_message (toLowerCase env a)), extra = []\<rparr>, w)"
    and "lookup_package env (toLowerCase env a) = Some p \<Longrightarrow>
         adb_status env p w = (Inr (Some st), w') \<Longrightarrow>
           getAppState env g w =
             (Inr \<lparr>status = 200, error = None,
                   extra = [(''state'', adbAppStatusToDabAppState env (Some st))]\<rparr>, w')"
  using assms by (simp_all add: getAppState_def dabResponse_404 with_state)

lemma example_lowercase:
  "toLowerCase example_bridge ''YouTube'' = ''youtube''"
  "toLowerCase example_bridge ''youtube'' = ''youtube''"
  "toLowerCase example_bridge ''Netflix'' = ''netflix''"
  "toLowerCase example_bridge ''netflix'' = ''netflix''"
  by (simp_all add: example_bridge_def lower_youtube lower_youtube_again lower_netflix lower_netflix_again)

lemma example_lookups:
  "appMap example_bridge ''youtube'' =
     Some (Impl \<lparr>package = Some ''com.google.android.youtube.tv'', friendlyName = Some ''YouTube'',
                 intent = Some [''-a'', ''android.intent.action.VIEW'', ''-d'', ''https://www.youtube.com/tv?''],
                 optionsPrefix = None\<rparr>)"
  "lookup_package example_bridge ''youtube'' = Some ''com.google.android.youtube.tv''"
  "appMap example_bridge ''netflix'' = None"
  "lookup_package example_bridge ''netflix'' = None"
  by (simp_all add: lookup_package_def example_bridge_def example_appMap_def)

lemma example_adb:
  "adb_start example_bridge i w = (Inr (), w @ [''start''])"
  "adb_status example_bridge p w = (Inr (Some ExRunning), w @ [''status''])"
  "adb_backgroundApp example_bridge p w = (Inr (), w @ [''background''])"
  "adb_stop example_bridge p w = (Inr (), w @ [''stop''])"
  "status_Running example_bridge = ExRunning"
  "status_Stopped example_bridge = ExStopped"
  "state_Stopped example_bridge = JStr ''STOPPED''"
  "state_Background example_bridge = JStr ''BACKGROUND''"
  "adbAppStatusToDabAppState example_bridge st = JStr ''FOREGROUND''"
  by (simp_all add: example_bridge_def)

text \<open>
  C10. \<open>launchApp\<close>, \<open>exitApp\<close> and \<open>getAppState\<close> replace a string
  \<open>appId\<close> by its lowercase form before anything else reads it, and look the
  application up under that form. On the same bridge and the same device, a request and
  the same request with \<open>appId\<close> already lowercased give the same response and leave
  the device in the same state. When the map has nothing usable under the lowercased id
  (no entry; for \<open>launchApp\<close> no intent, for the other two no package), the response is
  the 404 that names the lowercased id, and no adb command runs. When it has, the adb
  commands are given what the entry of the lowercased id holds: \<open>launchApp\<close> starts
  its intent, \<open>exitApp\<close> and \<open>getAppState\<close> ask for the status of its package.
  The runtime's \<open>toLowerCase\<close> is a parameter; what is used of it is that lowercasing
  a lowercased text changes nothing.
\<close>

theorem appId_lowercased_before_lookup:
  assumes "toLowerCase env (toLowerCase env a) = toLowerCase env a"
  shows "(launch_appId l = JStr a \<longrightarrow>
            launchApp env l w = launchApp env (l\<lparr>launch_appId := JStr (toLowerCase env a)\<rparr>) w)
       \<and> (exit_appId x = JStr a \<longrightarrow>
            exitApp env x w = exitApp env (x\<lparr>exit_appId := JStr (toLowerCase env a)\<rparr>) w)
       \<and> (state_appId g = JStr a \<longrightarrow>
            getAppState env g w = getAppState env (g\<lparr>state_appId := JStr (toLowerCase env a)\<rparr>) w)
       \<and> (launch_appId l = JStr a \<longrightarrow> appMap env (toLowerCase env a) = None \<longrightarrow>
            launchApp env l w =
              (Inr \<lparr>status = 404, error = Some (not_found_message (toLowerCase env a)), extra = []\<rparr>, w))
       \<and> (launch_appId l = JStr a \<longrightarrow> appMap env (toLowerCase env a) = Some entry \<longrightarrow>
            entry_intent entry = None \<longrightarrow>
            launchApp env l w =
              (Inr \<lparr>status = 404, error = Some (not_found_message (toLowerCase env a)), extra = []\<rparr>, w))
       \<and> (launch_appId l = JStr a \<longrightarrow> appMap env (toLowerCase env a) = Some entry \<longrightarrow>
            entry_intent entry = Some base \<longrightarrow>
            adb_start env (launch_intent env base (entry_optionsPrefix entry) (parameters l)) w
              = (Inr u, wa) \<longrightarrow>
            launchApp env l w = (Inr \<lparr>status = 200, error = None, extra = []\<rparr>, wa))
       \<and> (exit_appId x = JStr a \<longrightarrow> lookup_package env (toLowerCase env a) = None \<longrightarrow>
            exitApp env x w =
              (Inr \<lparr>status = 404, error = Some (not_found_message (toLowerCase env a)), extra = []\<rparr>, w))
       \<and> (exit_appId x = JStr a \<longrightarrow> lookup_package env (toLowerCase env a) = Some p \<longrightarrow>
            adb_status env p w = (Inr (Some (status_Running env)), wb) \<longrightarrow> \<not> truthy (force x) \<longrightarrow>
            adb_backgroundApp env p wb = (Inr u, wc) \<longrightarrow>
            exitApp env x w =
              (Inr \<lparr>status = 200, error = None, extra = [(''state'', state_Background env)]\<rparr>, wc))
       \<and> (exit_appId x = JStr a \<longrightarrow> lookup_package env (toLowerCase env a) = Some p \<longrightarrow>
            adb_status env p w = (Inr appStatus, wb) \<longrightarrow> truthy (force x) \<longrightarrow>
            appStatus \<noteq> Some (status_Stopped env) \<longrightarrow>
            exitApp env x w = stop_then env p wb)
       \<and> (state_appId g = JStr a \<longrightarrow> lookup_package env (toLowerCase env a) = None \<longrightarrow>
            getAppState env g w =
              (Inr \<lparr>status = 404, error = Some (not_found_message (toLowerCase env a)), extra = []\<rparr>, w))
       \<and> (state_appId g = JStr a \<longrightarrow> lookup_package env (toLowerCase env a) = Some p \<longrightarrow>
            adb_status env p w = (Inr (Some st), wb) \<longrightarrow>
            getAppState env g w =
              (Inr \<lparr>status = 200, error = None,
                    extra = [(''state'', adbAppStatusToDabAppState env (Some st))]\<rparr>, wb))"
proof -
  note same = handlers_ignore_case [OF assms]
  have i1: "launch_appId l = JStr a \<longrightarrow>
            launchApp env l w = launchApp env (l\<lparr>launch_appId := JStr (toLowerCase env a)\<rparr>) w"
    by (intro impI, rule same(1), assumption+)
  have i2: "exit_appId x = JStr a \<longrightarrow>
            exitApp env x w = exitApp env (x\<lparr>exit_appId := JStr (toLowerCase env a)\<rparr>) w"
    by (intro impI, rule same(2), assumption+)
  have i3: "state_appId g = JStr a \<longrightarrow>
            getAppState env g w = getAppState env (g\<lparr>state_appId := JStr (toLowerCase env a)\<rparr>) w"
    by (intro impI, rule same(3), assumption+)
  have l1: "launch_appId l = JStr a \<longrightarrow> appMap env (toLowerCase env a) = None \<longrightarrow>
            launchApp env l w =
              (Inr \<lparr>status = 404, error = Some (not_found_message (toLowerCase env a)), extra = []\<rparr>, w)"
    by (intro impI, rule launchApp_lookup(1), assumption+)
  have l2: "launch_appId l = JStr a \<longrightarrow> appMap env (toLowerCase env a) = Some entry \<longrightarrow>
            entry_intent entry = None \<longrightarrow>
            launchApp env l w =
              (Inr \<lparr>status = 404, error = Some (not_found_message (toLowerCase env a)), extra = []\<rparr>, w)"
    by (intro impI, rule launchApp_lookup(2), assumption+)
  have l3: "launch_appId l = JStr a \<longrightarrow> appMap env (toLowerCase env a) = Some entry \<longrightarrow>
            entry_intent entry = Some base \<longrightarrow>
            adb_start env (launch_intent env base (entry_optionsPrefix entry) (parameters l)) w
              = (Inr u, wa) \<longrightarrow>
            launchApp env l w = (Inr \<lparr>status = 200, error = None, extra = []\<rparr>, wa)"
    by (intro impI, rule launchApp_lookup(3), assumption+)
  have e1: "exit_appId x = JStr a \<longrightarrow> lookup_package env (toLowerCase env a) = None \<longrightarrow>
            exitApp env x w =
              (Inr \<lparr>status = 404, error = Some (not_found_message (toLowerCase env a)), extra = []\<rparr>, w)"
    by (intro impI, rule exitApp_lookup(1), assumption+)
  have e2: "exit_appId x = JStr a \<longrightarrow> lookup_package env (toLowerCase env a) = Some p \<longrightarrow>
            adb_status env p w = (Inr (Some (status_Running env)), wb) \<longrightarrow> \<not> truthy (force x) \<longrightarrow>
            adb_backgroundApp env p wb = (Inr u, wc) \<longrightarrow>
            exitApp env x w =
              (Inr \<lparr>status = 200, error = None, extra = [(''state'', state_Background env)]\<rparr>, wc)"
    by (intro impI, rule exitApp_lookup(2), assumption+)
  have e3: "exit_appId x = JStr a \<longrightarrow> lookup_package env (toLowerCase env a) = Some p \<longrightarrow>
            adb_status env p w = (Inr appStatus, wb) \<longrightarrow> truthy (force x) \<longrightarrow>
            appStatus \<noteq> Some (status_Stopped env) \<longrightarrow>
            exitApp env x w = stop_then env p wb"
    by (intro impI, rule exitApp_lookup(3), assumption+)
  have g1: "state_appId g = JStr a \<longrightarrow> lookup_package env (toLowerCase env a) = None \<longrightarrow>
            getAppState env g w =
              (Inr \<lparr>status = 404, error = Some (not_found_message (toLowerCase env a)), extra = []\<rparr>, w)"
    by (intro impI, rule getAppState_lookup(1), assumption+)
  have g2: "state_appId g = JStr a \<longrightarrow> lookup_package env (toLowerCase env a) = Some p \<longrightarrow>
            adb_status env p w = (Inr (Some st), wb) \<longrightarrow>
            getAppState env g w =
              (Inr \<lparr>status = 200, error = None,
                    extra = [(''state'', adbAppStatusToDabAppState env (Some st))]\<rparr>, wb)"
    by (intro impI, rule getAppState_lookup(2), assumption+)
  from i1 i2 i3 l1 l2 l3 e1 e2 e3 g1 g2 show ?thesis by (intro conjI)
qed

theorem appId_lowercased_before_lookup_witness:
  "toLowerCase example_bridge (toLowerCase example_bridge ''YouTube'') = toLowerCase example_bridge ''YouTube''
   \<and> toLowerCase example_bridge (toLowerCase example_bridge ''Netflix'') = toLowerCase example_bridge ''Netflix''
   \<and> lookup_package example_bridge (toLowerCase example_bridge ''YouTube'') = Some ''com.google.android.youtube.tv''
   \<and> appMap example_bridge (toLowerCase example_bridge ''Netflix'') = None
   \<and> lookup_package example_bridge (toLowerCase example_bridge ''Netflix'') = None
   \<and> launchApp example_bridge \<lparr>launch_appId = JStr ''YouTube'', parameters = JUndefined\<rparr> []
       = launchApp example_bridge \<lparr>launch_appId = JStr ''youtube'', parameters = JUndefined\<rparr> []
   \<and> launchApp example_bridge \<lparr>launch_appId = JStr ''YouTube'', parameters = JUndefined\<rparr> []
       = (Inr \<lparr>status = 200, error = None, extra = []\<rparr>, [''start''])
   \<and> exitApp example_bridge \<lparr>exit_appId = JStr ''YouTube'', force = JBool False\<rparr> []
       = exitApp example_bridge \<lparr>exit_appId = JStr ''youtube'', force = JBool False\<rparr> []
   \<and> exitApp example_bridge \<lparr>exit_appId = JStr ''YouTube'', force = JBool False\<rparr> []
       = (Inr \<lparr>status = 200, error = None, extra = [(''state'', JStr ''BACKGROUND'')]\<rparr>,
          [''status'', ''background''])
   \<and> exitApp example_bridge \<lparr>exit_appId = JStr ''YouTube'', force = JBool True\<rparr> []
       = (Inr \<lparr>status = 200, error = None, extra = [(''state'', JStr ''STOPPED'')]\<rparr>,
          [''status'', ''stop''])
   \<and> getAppState example_bridge \<lparr>state_appId = JStr ''YouTube''\<rparr> []
       = getAppState example_bridge \<lparr>state_appId = JStr ''youtube''\<rparr> []
   \<and> getAppState example_bridge \<lparr>state_appId = JStr ''YouTube''\<rparr> []
       = (Inr \<lparr>status = 200, error = None, extra = [(''state'', JStr ''FOREGROUND'')]\<rparr>, [''status''])
   \<and> launchApp example_bridge \<lparr>launch_appId = JStr ''Netflix'', parameters = JUndefined\<rparr> []
       = (Inr \<lparr>status = 404, error = Some (not_found_message ''netflix''), extra = []\<rparr>, [])
   \<and> exitApp example_bridge \<lparr>exit_appId = JStr ''Netflix'', force = JBool False\<rparr> []
       = (Inr \<lparr>status = 404, error = Some (not_found_message ''netflix''), extra = []\<rparr>, [])
   \<and> getAppState example_bridge \<lparr>state_appId = JStr ''Netflix''\<rparr> []
       = (Inr \<lparr>status = 404, error = Some (not_found_message ''netflix''), extra = []\<rparr>, [])"
proof -
  let ?entry = "Impl \<lparr>package = Some ''com.google.android.youtube.tv'', friendlyName = Some ''YouTube'',
                 intent = Some [''-a'', ''android.intent.action.VIEW'', ''-d'', ''https://www.youtube.com/tv?''],
                 optionsPrefix = None\<rparr>"
  have idem_y: "toLowerCase example_bridge (toLowerCase example_bridge ''YouTube'')
              = toLowerCase example_bridge ''YouTube''"
    and idem_n: "toLowerCase example_bridge (toLowerCase example_bridge ''Netflix'')
              = toLowerCase example_bridge ''Netflix''"
    by (simp_all add: example_lowercase)
  have h1: "lookup_package example_bridge (toLowerCase example_bridge ''YouTube'')
              = Some ''com.google.android.youtube.tv''"
    and h2: "appMap example_bridge (toLowerCase example_bridge ''Netflix'') = None"
    and h3: "lookup_package example_bridge (toLowerCase example_bridge ''Netflix'') = None"
    by (simp_all add: example_lowercase example_lookups)
  note soft = appId_lowercased_before_lookup [OF idem_y,
      where l = "\<lparr>launch_appId = JStr ''YouTube'', parameters = JUndefined\<rparr>"
        and x = "\<lparr>exit_appId = JStr ''YouTube'', force = JBool False\<rparr>"
        and g = "\<lparr>state_appId = JStr ''YouTube''\<rparr>" and w = "[]"
        and entry = ?entry
        and base = "[''-a'', ''android.intent.action.VIEW'', ''-d'', ''https://www.youtube.com/tv?'']"
        and u = "()" and wa = "[''start'']"
        and p = "''com.google.android.youtube.tv''" and wb = "[''status'']"
        and wc = "[''status'', ''background'']" and st = ExRunning and appStatus = "Some ExRunning"]
  note forced = appId_lowercased_before_lookup [OF idem_y,
      where l = "\<lparr>launch_appId = JStr ''YouTube'', parameters = JUndefined\<rparr>"
        and x = "\<lparr>exit_appId = JStr ''YouTube'', force = JBool True\<rparr>"
        and g = "\<lparr>state_appId = JStr ''YouTube''\<rparr>" and w = "[]"
        and entry = ?entry
        and base = "[''-a'', ''android.intent.action.VIEW'', ''-d'', ''https://www.youtube.com/tv?'']"
        and u = "()" and wa = "[''start'']"
        and p = "''com.google.android.youtube.tv''" and wb = "[''status'']"
        and wc = "[''status'', ''background'']" and st = ExRunning and appStatus = "Some ExRunning"]
  note missing = appId_lowercased_before_lookup [OF idem_n,
      where l = "\<lparr>launch_appId = JStr ''Netflix'', parameters = JUndefined\<rparr>"
        and x = "\<lparr>exit_appId = JStr ''Netflix'', force = JBool False\<rparr>"
        and g = "\<lparr>state_appId = JStr ''Netflix''\<rparr>" and w = "[]"
        and entry = ?entry and base = "[]" and u = "()" and wa = "[]"
        and p = "[]" and wb = "[]" and wc = "[]" and st = ExRunning and appStatus = None]
  from soft [THEN conjunct1]
  have c1: "launchApp example_bridge \<lparr>launch_appId = JStr ''YouTube'', parameters = JUndefined\<rparr> []
       = launchApp example_bridge \<lparr>launch_appId = JStr ''youtube'', parameters = JUndefined\<rparr> []"
    by (simp add: example_lowercase)
  from soft [THEN conjunct2, THEN conjunct1]
  have c2: "exitApp example_bridge \<lparr>exit_appId = JStr ''YouTube'', force = JBool False\<rparr> []
       = exitApp example_bridge \<lparr>exit_appId = JStr ''youtube'', force = JBool False\<rparr> []"
    by (simp add: example_lowercase)
  from soft [THEN conjunct2, THEN conjunct2, THEN conjunct1]
  have c3: "getAppState example_bridge \<lparr>state_appId = JStr ''YouTube''\<rparr> []
       = getAppState example_bridge \<lparr>state_appId = JStr ''youtube''\<rparr> []"
    by (simp add: example_lowercase)
  from soft [THEN conjunct2, THEN conjunct2, THEN conjunct2, THEN conjunct2, THEN conjunct2, THEN conjunct1] have c4: "launchApp example_bridge \<lparr>launch_appId = JStr ''YouTube'', parameters = JUndefined\<rparr> []
       = (Inr \<lparr>status = 200, error = None, extra = []\<rparr>, [''start''])"
    by (simp add: example_lowercase example_lookups example_adb)
  from soft [THEN conjunct2, THEN conjunct2, THEN conjunct2, THEN conjunct2, THEN conjunct2, THEN conjunct2, THEN conjunct2, THEN conjunct1] have c5: "exitApp example_bridge \<lparr>exit_appId = JStr ''YouTube'', force = JBool False\<rparr> []
       = (Inr \<lparr>status = 200, error = None, extra = [(''state'', JStr ''BACKGROUND'')]\<rparr>,
          [''status'', ''background''])"
    by (simp add: example_lowercase example_lookups example_adb)
  from forced [THEN conjunct2, THEN conjunct2, THEN conjunct2, THEN conjunct2, THEN conjunct2, THEN conjunct2, THEN conjunct2, THEN conjunct2, THEN conjunct1] have c6: "exitApp example_bridge \<lparr>exit_appId = JStr ''YouTube'', force = JBool True\<rparr> []
       = (Inr \<lparr>status = 200, error = None, extra = [(''state'', JStr ''STOPPED'')]\<rparr>,
          [''status'', ''stop''])"
    by (simp add: example_lowercase example_lookups example_adb stop_then_def with_state)
  from soft [THEN conjunct2, THEN conjunct2, THEN conjunct2, THEN conjunct2, THEN conjunct2, THEN conjunct2, THEN conjunct2, THEN conjunct2, THEN conjunct2, THEN conjunct2] have c7: "getAppState example_bridge \<lparr>state_appId = JStr ''YouTube''\<rparr> []
       = (Inr \<lparr>status = 200, error = None, extra = [(''state'', JStr ''FOREGROUND'')]\<rparr>, [''status''])"
    by (simp add: example_lowercase example_lookups example_adb)
  from missing [THEN conjunct2, THEN conjunct2, THEN conjunct2, THEN conjunct1]
  have c8: "launchApp example_bridge \<lparr>launch_appId = JStr ''Netflix'', parameters = JUndefined\<rparr> []
       = (Inr \<lparr>status = 404, error = Some (not_found_message ''netflix''), extra = []\<rparr>, [])"
    by (simp add: example_lowercase example_lookups)
  from missing [THEN conjunct2, THEN conjunct2, THEN conjunct2, THEN conjunct2, THEN conjunct2, THEN conjunct2, THEN conjunct1]
  have c9: "exitApp example_bridge \<lparr>exit_appId = JStr ''Netflix'', force = JBool False\<rparr> []
       = (Inr \<lparr>status = 404, error = Some (not_found_message ''netflix''), extra = []\<rparr>, [])"
    by (simp add: example_lowercase example_lookups)
  from missing [THEN conjunct2, THEN conjunct2, THEN conjunct2, THEN conjunct2, THEN conjunct2, THEN conjunct2, THEN conjunct2, THEN conjunct2, THEN conjunct2, THEN conjunct1]
  have c10: "getAppState example_bridge \<lparr>state_appId = JStr ''Netflix''\<rparr> []
       = (Inr \<lparr>status = 404, error = Some (not_found_message ''netflix''), extra = []\<rparr>, [])"
    by (simp add: example_lowercase example_lookups)
  from idem_y idem_n h1 h2 h3 c1 c4 c2 c5 c6 c3 c7 c8 c9 c10 show ?thesis by (intro conjI)
qed

end
